theory Spec2Isabelle
  imports Complex_Main "HOL-Library.Multiset"
begin

section \<open>The nearby-places resolver of \<^verbatim>\<open>src/project/main.py\<close>\<close>

text \<open>
  The development embeds the handler \<^verbatim>\<open>nearby\<close> (lines 161-301 of
  \<^verbatim>\<open>src/project/main.py\<close>) and its two local functions \<^verbatim>\<open>haversine\<close> and
  \<^verbatim>\<open>friendly_name\<close>.

  Conventions of the embedding:
  \<^item> a value produced by \<^verbatim>\<open>resp.json()\<close> is a term of the datatype \<open>json\<close>; a Python
    \<^verbatim>\<open>dict\<close> is an association list read with \<open>map_of\<close> (of two entries with the
    same key the first is the one the \<^verbatim>\<open>dict\<close> holds);
  \<^item> a Python \<^verbatim>\<open>float\<close> is a \<open>real\<close>: arithmetic is exact, and the values
    \<^verbatim>\<open>nan\<close> and \<^verbatim>\<open>inf\<close> do not exist;
  \<^item> a Python \<^verbatim>\<open>str\<close> is a \<open>string\<close> of bytes; \<^verbatim>\<open>str.title\<close> is modelled on the
    ASCII letters and leaves every other byte unchanged;
  \<^item> every exception the handler can raise inside its \<^verbatim>\<open>try\<close> block is a value of
    \<open>py_exc\<close>, and a computation that may raise returns \<open>py_exc + 'a\<close>;
  \<^item> the HTTP library is outside the repository: what \<^verbatim>\<open>httpx.post\<close> does is a
    parameter (\<open>http_post\<close>), and so is the text Python prints for a float
    (\<open>float_str\<close>).
\<close>

subsection \<open>JSON values and Python exceptions\<close>

datatype json =
    JNull
  | JBool bool
  | JInt int
  | JFloat real
  | JStr string
  | JArr "json list"
  | JObj "(string \<times> json) list"

datatype py_exc =
    LibraryError string
  | KeyError string
  | AttributeError string string
  | TypeError string
  | ValueError string

text \<open>\<^verbatim>\<open>type(v).__name__\<close>, as it appears in the interpreter's messages.\<close>

fun type_name :: "json \<Rightarrow> string" where
  "type_name JNull = ''NoneType''"
| "type_name (JBool b) = ''bool''"
| "type_name (JInt i) = ''int''"
| "type_name (JFloat x) = ''float''"
| "type_name (JStr s) = ''str''"
| "type_name (JArr xs) = ''list''"
| "type_name (JObj kvs) = ''dict''"

text \<open>\<^verbatim>\<open>str(e)\<close>: the text that the handler puts under the key \<^verbatim>\<open>"error"\<close>.\<close>

fun str_exc :: "py_exc \<Rightarrow> string" where
  "str_exc (LibraryError m) = m"
| "str_exc (KeyError k) = [CHR 0x27] @ k @ [CHR 0x27]"
| "str_exc (AttributeError t a) =
     [CHR 0x27] @ t @ [CHR 0x27] @ '' object has no attribute '' @ [CHR 0x27] @ a @ [CHR 0x27]"
| "str_exc (TypeError m) = m"
| "str_exc (ValueError m) = m"

text \<open>Truth value of an object, as \<^verbatim>\<open>if x:\<close>, \<^verbatim>\<open>not x\<close> and \<^verbatim>\<open>x or y\<close> test it.\<close>

fun truthy :: "json \<Rightarrow> bool" where
  "truthy JNull = False"
| "truthy (JBool b) = b"
| "truthy (JInt i) = (i \<noteq> 0)"
| "truthy (JFloat x) = (x \<noteq> 0)"
| "truthy (JStr s) = (s \<noteq> [])"
| "truthy (JArr xs) = (xs \<noteq> [])"
| "truthy (JObj kvs) = (kvs \<noteq> [])"

text \<open>\<^verbatim>\<open>d.get(k, default)\<close> on a value that is known to be a \<^verbatim>\<open>dict\<close>.\<close>

definition dict_get :: "(string \<times> json) list \<Rightarrow> string \<Rightarrow> json \<Rightarrow> json" where
  "dict_get kvs k d = (case map_of kvs k of None \<Rightarrow> d | Some v \<Rightarrow> v)"

text \<open>\<^verbatim>\<open>v.get(k, default)\<close> on any value: only a \<^verbatim>\<open>dict\<close> has the method.\<close>

fun get :: "json \<Rightarrow> string \<Rightarrow> json \<Rightarrow> py_exc + json" where
  "get (JObj kvs) k d = Inr (dict_get kvs k d)"
| "get v k d = Inl (AttributeError (type_name v) ''get'')"

text \<open>\<^verbatim>\<open>d[k]\<close> on a value that is known to be a \<^verbatim>\<open>dict\<close>.\<close>

definition subscript :: "(string \<times> json) list \<Rightarrow> string \<Rightarrow> py_exc + json" where
  "subscript kvs k = (case map_of kvs k of None \<Rightarrow> Inl (KeyError k) | Some v \<Rightarrow> Inr v)"

text \<open>The numbers of Python: \<^verbatim>\<open>int\<close>, \<^verbatim>\<open>float\<close> and \<^verbatim>\<open>bool\<close> (a subclass of \<^verbatim>\<open>int\<close>).\<close>

fun as_number :: "json \<Rightarrow> real option" where
  "as_number (JInt i) = Some (of_int i)"
| "as_number (JFloat x) = Some x"
| "as_number (JBool b) = Some (if b then 1 else 0)"
| "as_number v = None"

subsection \<open>\<^verbatim>\<open>str.title\<close>\<close>

definition is_lower :: "char \<Rightarrow> bool" where
  "is_lower c = (97 \<le> (of_char c :: nat) \<and> (of_char c :: nat) \<le> 122)"

definition is_upper :: "char \<Rightarrow> bool" where
  "is_upper c = (65 \<le> (of_char c :: nat) \<and> (of_char c :: nat) \<le> 90)"

definition is_cased :: "char \<Rightarrow> bool" where
  "is_cased c = (is_lower c \<or> is_upper c)"

definition to_upper :: "char \<Rightarrow> char" where
  "to_upper c = (if is_lower c then char_of ((of_char c :: nat) - 32) else c)"

definition to_lower :: "char \<Rightarrow> char" where
  "to_lower c = (if is_upper c then char_of ((of_char c :: nat) + 32) else c)"

text \<open>
  The loop of \<^verbatim>\<open>str.title\<close>: a character that follows a cased character is lowered,
  any other character is raised; the flag is whether the previous character is cased.
\<close>

fun title_from :: "bool \<Rightarrow> string \<Rightarrow> string" where
  "title_from previous_is_cased [] = []"
| "title_from previous_is_cased (c # cs) =
     (if previous_is_cased then to_lower c else to_upper c) # title_from (is_cased c) cs"

definition title :: "string \<Rightarrow> string" where
  "title s = title_from False s"

subsection \<open>\<^verbatim>\<open>friendly_name\<close> (lines 228-250)\<close>

definition label_map :: "(string \<times> string) list" where
  "label_map =
    [(''bench'',         ''Seating / Rest Spot''),
     (''toilets'',       ''Public Washroom''),
     (''shelter'',       ''Shelter / Rest Area''),
     (''hospital'',      ''Hospital (Has Washrooms)''),
     (''clinic'',        ''Clinic (Has Washrooms)''),
     (''pharmacy'',      ''Pharmacy''),
     (''doctors'',       ''Doctor''),
     (''health_centre'', ''Health Centre''),
     (''park'',          ''Park''),
     (''elevator'',      ''Elevator''),
     (''cafe'',          ''Caf'' @ [CHR 0xC3, CHR 0xA9] @ '' (Has Washrooms)''),
     (''restaurant'',    ''Restaurant (Has Washrooms)''),
     (''mall'',          ''Shopping Mall (Has Washrooms)'')]"

text \<open>
  \<^verbatim>\<open>key in label_map\<close> followed by \<^verbatim>\<open>label_map[key]\<close>. The key is hashed first: a
  \<^verbatim>\<open>list\<close> or a \<^verbatim>\<open>dict\<close> raises \<^verbatim>\<open>TypeError\<close>; any other value that is not a string
  is no key of the table.
\<close>

fun label_of :: "json \<Rightarrow> py_exc + string option" where
  "label_of (JStr s) = Inr (map_of label_map s)"
| "label_of (JArr xs) = Inl (TypeError (''unhashable type: '' @ [CHR 0x27] @ ''list'' @ [CHR 0x27]))"
| "label_of (JObj kvs) = Inl (TypeError (''unhashable type: '' @ [CHR 0x27] @ ''dict'' @ [CHR 0x27]))"
| "label_of v = Inr None"

text \<open>The \<^verbatim>\<open>for key in [...]\<close> loop of lines 247-250.\<close>

fun first_label :: "json list \<Rightarrow> py_exc + string" where
  "first_label [] = Inr ''Accessible Place''"
| "first_label (key # keys) =
     (case label_of key of
        Inl e \<Rightarrow> Inl e
      | Inr (Some label) \<Rightarrow> Inr label
      | Inr None \<Rightarrow> first_label keys)"

text \<open>\<^verbatim>\<open>name.title()\<close>: only a \<^verbatim>\<open>str\<close> has the method.\<close>

fun title_method :: "json \<Rightarrow> py_exc + string" where
  "title_method (JStr s) = Inr (title s)"
| "title_method v = Inl (AttributeError (type_name v) ''title'')"

text \<open>
  The list display of line 247 (and of lines 288-293): \<^verbatim>\<open>tags.get(k, "")\<close> for the
  four keys, in this order.
\<close>

definition category_tags :: "(string \<times> json) list \<Rightarrow> json list" where
  "category_tags tags =
     [dict_get tags ''amenity'' (JStr []), dict_get tags ''highway'' (JStr []),
      dict_get tags ''leisure'' (JStr []), dict_get tags ''shop'' (JStr [])]"

text \<open>
  \<^verbatim>\<open>tags\<close> is whatever the element holds under \<^verbatim>\<open>"tags"\<close>; \<^verbatim>\<open>tags.get("name")\<close>
  is \<^verbatim>\<open>None\<close> when the key is missing.
\<close>

fun friendly_name :: "json \<Rightarrow> py_exc + string" where
  "friendly_name (JObj tags) =
     (let name = dict_get tags ''name'' JNull
      in if truthy name then title_method name
         else first_label (category_tags tags))"
| "friendly_name v = Inl (AttributeError (type_name v) ''get'')"

subsection \<open>\<^verbatim>\<open>haversine\<close> (lines 221-226)\<close>

definition radians :: "real \<Rightarrow> real" where
  "radians x = x * pi / 180"

text \<open>\<^verbatim>\<open>math.sqrt\<close> raises \<^verbatim>\<open>ValueError\<close> on a negative argument.\<close>

definition py_sqrt :: "real \<Rightarrow> py_exc + real" where
  "py_sqrt x = (if x < 0 then Inl (ValueError ''math domain error'') else Inr (sqrt x))"

text \<open>\<^verbatim>\<open>math.atan2(y, x)\<close>, the angle of the point \<open>(x, y)\<close> in \<open>(-\<pi>, \<pi>]\<close>.\<close>

definition atan2 :: "real \<Rightarrow> real \<Rightarrow> real" where
  "atan2 y x =
     (if 0 < x then arctan (y / x)
      else if x < 0 then (if 0 \<le> y then arctan (y / x) + pi else arctan (y / x) - pi)
      else if 0 < y then pi / 2
      else if y < 0 then - (pi / 2)
      else 0)"

text \<open>\<^verbatim>\<open>int(x)\<close> of a float truncates towards zero.\<close>

definition py_int :: "real \<Rightarrow> int" where
  "py_int x = (if 0 \<le> x then \<lfloor>x\<rfloor> else \<lceil>x\<rceil>)"

text \<open>\<^verbatim>\<open>x - lat\<close> for an object \<open>x\<close> and a float: defined on the numbers only.\<close>

definition unsupported_minus :: "json \<Rightarrow> py_exc" where
  "unsupported_minus v =
     TypeError (''unsupported operand type(s) for -: '' @ [CHR 0x27] @ type_name v @ [CHR 0x27]
                @ '' and '' @ [CHR 0x27] @ ''float'' @ [CHR 0x27])"

text \<open>
  The local function closes over the query point \<open>(lat, lng)\<close>, which the embedding
  passes first. The arguments \<open>elat\<close> and \<open>elng\<close> are whatever the payload held.
\<close>

definition haversine :: "real \<Rightarrow> real \<Rightarrow> json \<Rightarrow> json \<Rightarrow> py_exc + int" where
  "haversine lat lng elat elng =
     (case as_number elat of
        None \<Rightarrow> Inl (unsupported_minus elat)
      | Some elat' \<Rightarrow>
     (case as_number elng of
        None \<Rightarrow> Inl (unsupported_minus elng)
      | Some elng' \<Rightarrow>
         (let R = 6371000;
              dlat = radians (elat' - lat);
              dlon = radians (elng' - lng);
              a = (sin (dlat / 2))\<^sup>2
                  + cos (radians lat) * cos (radians elat') * (sin (dlon / 2))\<^sup>2
          in case py_sqrt a of
               Inl e \<Rightarrow> Inl e
             | Inr y \<Rightarrow>
            (case py_sqrt (1 - a) of
               Inl e \<Rightarrow> Inl e
             | Inr x \<Rightarrow> Inr (py_int (R * 2 * atan2 y x))))))"

subsection \<open>The upstream query (lines 166-219)\<close>

definition r :: nat where
  "r = 2000"

text \<open>The decimal text of a non-negative \<^verbatim>\<open>int\<close> in an f-string.\<close>

fun str_nat :: "nat \<Rightarrow> string" where
  "str_nat n =
     (if n < 10 then [char_of (48 + n)]
      else str_nat (n div 10) @ [char_of (48 + n mod 10)])"

declare str_nat.simps [simp del]

text \<open>
  What the handler takes from outside the repository: the text of a float in an
  f-string, and the HTTP exchange. A response carries its status code, the message
  \<^verbatim>\<open>raise_for_status\<close> gives its exception, and what \<^verbatim>\<open>resp.json()\<close> does
  (return a value or raise).
\<close>

record response =
  status_code :: nat
  status_message :: string
  json_body :: "py_exc + json"

record env =
  float_str :: "real \<Rightarrow> string"
  http_post :: "string \<Rightarrow> py_exc + response"

definition nl :: string where
  "nl = [CHR 0x0A]"

text \<open>The filter \<^verbatim>\<open>(around:{r},{lat},{lng});\<close> that ends every clause.\<close>

definition around :: "env \<Rightarrow> real \<Rightarrow> real \<Rightarrow> string" where
  "around env lat lng =
     ''(around:'' @ str_nat r @ '','' @ float_str env lat @ '','' @ float_str env lng @ '');''"

text \<open>
  A triple-quoted f-string of \<^verbatim>\<open>queries_map\<close>: a newline, each clause on a line of its
  own behind twelve spaces, and eight spaces before the closing quotes.
\<close>

definition clauses :: "env \<Rightarrow> real \<Rightarrow> real \<Rightarrow> string list \<Rightarrow> string" where
  "clauses env lat lng selectors =
     nl @ concat (map (\<lambda>sel. replicate 12 CHR '' '' @ sel @ around env lat lng @ nl) selectors)
        @ replicate 8 CHR '' ''"

definition queries_map :: "env \<Rightarrow> real \<Rightarrow> real \<Rightarrow> (string \<times> string) list" where
  \<open>queries_map env lat lng =
    [(''elevator'', clauses env lat lng
        [''node["highway"="elevator"]'',
         ''node["amenity"="elevator"]'',
         ''node["building"="elevator"]'',
         ''node["amenity"="hospital"]'',
         ''way["amenity"="hospital"]'',
         ''node["amenity"="clinic"]'',
         ''node["amenity"="mall"]'',
         ''way["shop"="mall"]'']),
     (''rest'', clauses env lat lng
        [''node["amenity"="bench"]'',
         ''node["leisure"="park"]'',
         ''way["leisure"="park"]'',
         ''node["amenity"="shelter"]'',
         ''node["tourism"="picnic_site"]'',
         ''node["amenity"="cafe"]'',
         ''node["amenity"="restaurant"]'']),
     (''washroom'', clauses env lat lng
        [''node["amenity"="toilets"]'',
         ''way["amenity"="toilets"]'',
         ''node["amenity"="hospital"]'',
         ''way["amenity"="hospital"]'',
         ''node["amenity"="clinic"]'',
         ''node["amenity"="pharmacy"]'',
         ''node["shop"="mall"]'',
         ''way["shop"="mall"]'',
         ''node["amenity"="cafe"]'',
         ''node["amenity"="restaurant"]'']),
     (''hospital'', clauses env lat lng
        [''node["amenity"="hospital"]'',
         ''way["amenity"="hospital"]'',
         ''node["amenity"="clinic"]'',
         ''node["amenity"="pharmacy"]'',
         ''node["amenity"="doctors"]'',
         ''node["amenity"="health_centre"]'']),
     (''all'', clauses env lat lng
        [''node["amenity"~"hospital|clinic|pharmacy|toilets|bench|shelter|cafe|restaurant|doctors"]'',
         ''way["amenity"~"hospital|clinic"]'',
         ''node["leisure"="park"]'',
         ''way["leisure"="park"]'',
         ''node["highway"="elevator"]''])]\<close>

text \<open>Line 218: \<^verbatim>\<open>queries_map.get(filter, queries_map["all"])\<close>.\<close>

definition inner :: "env \<Rightarrow> real \<Rightarrow> real \<Rightarrow> string \<Rightarrow> string" where
  "inner env lat lng filter' =
     (case map_of (queries_map env lat lng) filter' of
        Some q \<Rightarrow> q
      | None \<Rightarrow> (case map_of (queries_map env lat lng) ''all'' of Some q \<Rightarrow> q | None \<Rightarrow> []))"

text \<open>Line 219.\<close>

definition query :: "env \<Rightarrow> real \<Rightarrow> real \<Rightarrow> string \<Rightarrow> string" where
  "query env lat lng filter' =
     ''[out:json][timeout:20];'' @ nl @ ''('' @ nl @ inner env lat lng filter' @ nl @ '');'' @ nl
       @ ''out center 30;''"

subsection \<open>The loop over the elements (lines 261-295)\<close>

record place =
  place_name :: string
  address :: json
  place_lat :: json
  place_lng :: json
  distance_m :: int
  types :: "json list"
  wheelchair :: json

text \<open>
  \<^verbatim>\<open>round(x, 4)\<close>: the nearest multiple of \<open>10\<^sup>-\<^sup>4\<close>, a tie going to the even one. A value
  that is no number has no \<^verbatim>\<open>__round__\<close>.
\<close>

definition round_half_even :: "real \<Rightarrow> int" where
  "round_half_even y =
     (let f = \<lfloor>y\<rfloor>; d = y - of_int f
      in if d < 1 / 2 then f else if 1 / 2 < d then f + 1 else if even f then f else f + 1)"

definition py_round :: "json \<Rightarrow> nat \<Rightarrow> py_exc + real" where
  "py_round v ndigits =
     (case as_number v of
        None \<Rightarrow> Inl (TypeError (''type '' @ type_name v @ '' doesn'' @ [CHR 0x27]
                                 @ ''t define __round__ method''))
      | Some x \<Rightarrow> Inr (of_int (round_half_even (x * 10 ^ ndigits)) / 10 ^ ndigits))"

text \<open>Line 275.\<close>

definition coord_key :: "json \<Rightarrow> json \<Rightarrow> py_exc + real \<times> real" where
  "coord_key elat elng =
     (case py_round elat 4 of
        Inl e \<Rightarrow> Inl e
      | Inr a \<Rightarrow> (case py_round elng 4 of Inl e \<Rightarrow> Inl e | Inr b \<Rightarrow> Inr (a, b)))"

text \<open>
  Lines 267-273, for an element \<open>el\<close> that is a \<^verbatim>\<open>dict\<close>: the coordinates of the
  element, or \<open>None\<close> where the loop says \<^verbatim>\<open>continue\<close>.
\<close>

definition locate :: "real \<Rightarrow> real \<Rightarrow> (string \<times> json) list \<Rightarrow> py_exc + (json \<times> json) option" where
  "locate lat lng el =
     (case subscript el ''type'' of
        Inl e \<Rightarrow> Inl e
      | Inr ty \<Rightarrow>
          if ty = JStr ''node'' then
            (case subscript el ''lat'' of
               Inl e \<Rightarrow> Inl e
             | Inr elat \<Rightarrow>
            (case subscript el ''lon'' of
               Inl e \<Rightarrow> Inl e
             | Inr elng \<Rightarrow> Inr (Some (elat, elng))))
          else
            (let center = dict_get el ''center'' (JObj [])
             in if \<not> truthy center then Inr None
                else
                  (case get center ''lat'' (JFloat lat) of
                     Inl e \<Rightarrow> Inl e
                   | Inr elat \<Rightarrow>
                  (case get center ''lon'' (JFloat lng) of
                     Inl e \<Rightarrow> Inl e
                   | Inr elng \<Rightarrow> Inr (Some (elat, elng))))))"

text \<open>\<^verbatim>\<open>a or b\<close>.\<close>

definition py_or :: "json \<Rightarrow> json \<Rightarrow> json" where
  "py_or a b = (if truthy a then a else b)"

text \<open>
  Lines 280-295: the distance, then the dictionary display, whose first entry calls
  \<^verbatim>\<open>friendly_name\<close>. That call raises unless \<^verbatim>\<open>tags\<close> is a \<^verbatim>\<open>dict\<close>, so the entries
  after it read a \<^verbatim>\<open>dict\<close>.
\<close>

definition make_place :: "real \<Rightarrow> real \<Rightarrow> json \<Rightarrow> json \<Rightarrow> json \<Rightarrow> py_exc + place" where
  "make_place lat lng tags elat elng =
     (case haversine lat lng elat elng of
        Inl e \<Rightarrow> Inl e
      | Inr dist' \<Rightarrow>
     (case friendly_name tags of
        Inl e \<Rightarrow> Inl e
      | Inr label \<Rightarrow>
     (case tags of
        JObj kvs \<Rightarrow>
          Inr \<lparr> place_name = label,
                address = py_or (dict_get kvs ''addr:street'' JNull)
                            (py_or (dict_get kvs ''addr:full'' JNull)
                              (py_or (dict_get kvs ''addr:place'' JNull) (JStr []))),
                place_lat = elat,
                place_lng = elng,
                distance_m = dist',
                types = filter truthy (category_tags kvs),
                wheelchair = dict_get kvs ''wheelchair'' (JStr []) \<rparr>
      | _ \<Rightarrow> Inl (AttributeError (type_name tags) ''get''))))"

text \<open>
  One pass of the loop body on the state \<open>(places, seen)\<close>. \<^verbatim>\<open>el.get\<close> of line 265
  raises unless the element is a \<^verbatim>\<open>dict\<close>.
\<close>

fun loop_body ::
  "real \<Rightarrow> real \<Rightarrow> json \<Rightarrow> place list \<times> (real \<times> real) set \<Rightarrow> py_exc + place list \<times> (real \<times> real) set"
where
  "loop_body lat lng (JObj el) (ps, seen) =
     (let tags = dict_get el ''tags'' (JObj [])
      in case locate lat lng el of
           Inl e \<Rightarrow> Inl e
         | Inr None \<Rightarrow> Inr (ps, seen)
         | Inr (Some (elat, elng)) \<Rightarrow>
             (case coord_key elat elng of
                Inl e \<Rightarrow> Inl e
              | Inr key \<Rightarrow>
                  if key \<in> seen then Inr (ps, seen)
                  else
                    (case make_place lat lng tags elat elng of
                       Inl e \<Rightarrow> Inl e
                     | Inr p \<Rightarrow> Inr (ps @ [p], insert key seen))))"
| "loop_body lat lng v (ps, seen) = Inl (AttributeError (type_name v) ''get'')"

fun for_elements ::
  "real \<Rightarrow> real \<Rightarrow> json list \<Rightarrow> place list \<times> (real \<times> real) set \<Rightarrow> py_exc + place list \<times> (real \<times> real) set"
where
  "for_elements lat lng [] st = Inr st"
| "for_elements lat lng (el # els) st =
     (case loop_body lat lng el st of
        Inl e \<Rightarrow> Inl e
      | Inr st' \<Rightarrow> for_elements lat lng els st')"

subsection \<open>The handler (lines 252-301)\<close>

text \<open>\<^verbatim>\<open>resp.raise_for_status()\<close>: a status outside 200-299 raises.\<close>

definition raise_for_status :: "response \<Rightarrow> py_exc + unit" where
  "raise_for_status resp =
     (if 200 \<le> status_code resp \<and> status_code resp \<le> 299 then Inr ()
      else Inl (LibraryError (status_message resp)))"

text \<open>
  What \<^verbatim>\<open>for el in elements\<close> iterates over: the items of a \<^verbatim>\<open>list\<close>, the keys of a
  \<^verbatim>\<open>dict\<close>, the characters of a \<^verbatim>\<open>str\<close>; any other value is not iterable.
\<close>

fun iter :: "json \<Rightarrow> py_exc + json list" where
  "iter (JArr xs) = Inr xs"
| "iter (JObj kvs) = Inr (map (\<lambda>kv. JStr (fst kv)) kvs)"
| "iter (JStr s) = Inr (map (\<lambda>c. JStr [c]) s)"
| "iter v = Inl (TypeError ([CHR 0x27] @ type_name v @ [CHR 0x27] @ '' object is not iterable''))"

text \<open>
  Lines 253-259: the exchange with the upstream service, up to the value bound to
  \<^verbatim>\<open>elements\<close>.
\<close>

definition fetch :: "env \<Rightarrow> real \<Rightarrow> real \<Rightarrow> string \<Rightarrow> py_exc + json" where
  "fetch env lat lng filter' =
     (case http_post env (query env lat lng filter') of
        Inl e \<Rightarrow> Inl e
      | Inr resp \<Rightarrow>
     (case raise_for_status resp of
        Inl e \<Rightarrow> Inl e
      | Inr u \<Rightarrow>
     (case json_body resp of
        Inl e \<Rightarrow> Inl e
      | Inr payload \<Rightarrow> get payload ''elements'' (JArr []))))"

text \<open>The body of the \<^verbatim>\<open>try\<close> statement.\<close>

definition try_block :: "env \<Rightarrow> real \<Rightarrow> real \<Rightarrow> string \<Rightarrow> py_exc + place list" where
  "try_block env lat lng filter' =
     (case fetch env lat lng filter' of
        Inl e \<Rightarrow> Inl e
      | Inr elements \<Rightarrow>
     (case iter elements of
        Inl e \<Rightarrow> Inl e
      | Inr els \<Rightarrow>
     (case for_elements lat lng els ([], {}) of
        Inl e \<Rightarrow> Inl e
      | Inr (ps, seen) \<Rightarrow> Inr (take 15 (sort_key distance_m ps)))))"

text \<open>
  The response body: \<^verbatim>\<open>{"places": ...}\<close>, with the key \<^verbatim>\<open>"error"\<close> when the
  \<^verbatim>\<open>except\<close> clause ran. The parameter \<^verbatim>\<open>filter\<close> has the default \<^verbatim>\<open>"all"\<close>.
\<close>

record result =
  places :: "place list"
  error :: "string option"

definition nearby :: "env \<Rightarrow> real \<Rightarrow> real \<Rightarrow> string option \<Rightarrow> result" where
  "nearby env lat lng filter_arg =
     (let filter' = (case filter_arg of None \<Rightarrow> ''all'' | Some f \<Rightarrow> f)
      in case try_block env lat lng filter' of
           Inl e \<Rightarrow> \<lparr> places = [], error = Some (str_exc e) \<rparr>
         | Inr ps \<Rightarrow> \<lparr> places = ps, error = None \<rparr>)"

subsection \<open>Notions used to state the properties\<close>

text \<open>
  The definitions of this subsection are not in the source: they name what the
  properties below speak about.
\<close>

text \<open>The value of the parameter \<^verbatim>\<open>filter\<close>, which defaults to \<^verbatim>\<open>"all"\<close>.\<close>

definition effective_filter :: "string option \<Rightarrow> string" where
  "effective_filter filter_arg = (case filter_arg of None \<Rightarrow> ''all'' | Some f \<Rightarrow> f)"

text \<open>Whether a status code is one that \<^verbatim>\<open>raise_for_status\<close> lets pass.\<close>

definition is_success :: "response \<Rightarrow> bool" where
  "is_success resp = (200 \<le> status_code resp \<and> status_code resp \<le> 299)"

text \<open>
  A tag mapping whose values are strings, as the map data has them, and one whose values
  are strings or \<^verbatim>\<open>null\<close>.
\<close>

definition str_tags :: "(string \<times> string) list \<Rightarrow> json" where
  "str_tags m = JObj (map (\<lambda>(k, v). (k, JStr v)) m)"



text \<open>The quantity \<^verbatim>\<open>a\<close> of \<^verbatim>\<open>haversine\<close>, for numbers.\<close>

definition hav_a :: "real \<Rightarrow> real \<Rightarrow> real \<Rightarrow> real \<Rightarrow> real" where
  "hav_a lat lng elat elng =
     (sin (radians (elat - lat) / 2))\<^sup>2
       + cos (radians lat) * cos (radians elat) * (sin (radians (elng - lng) / 2))\<^sup>2"

text \<open>
  The rounded coordinate pair under which the loop files an element, when it gets as
  far as line 275 with it.
\<close>

fun element_key :: "real \<Rightarrow> real \<Rightarrow> json \<Rightarrow> (real \<times> real) option" where
  "element_key lat lng (JObj el) =
     (case locate lat lng el of
        Inr (Some (elat, elng)) \<Rightarrow>
          (case coord_key elat elng of Inr key \<Rightarrow> Some key | Inl e \<Rightarrow> None)
      | _ \<Rightarrow> None)"
| "element_key lat lng v = None"

text \<open>The Place Result that lines 280-295 build from an element, when they do.\<close>

fun element_place :: "real \<Rightarrow> real \<Rightarrow> json \<Rightarrow> place option" where
  "element_place lat lng (JObj el) =
     (case locate lat lng el of
        Inr (Some (elat, elng)) \<Rightarrow>
          (case make_place lat lng (dict_get el ''tags'' (JObj [])) elat elng of
             Inr p \<Rightarrow> Some p
           | Inl e \<Rightarrow> None)
      | _ \<Rightarrow> None)"
| "element_place lat lng v = None"

text \<open>The rounded coordinate pair of a Place Result.\<close>

definition place_key :: "place \<Rightarrow> (real \<times> real) option" where
  "place_key p = (case coord_key (place_lat p) (place_lng p) of Inr key \<Rightarrow> Some key | Inl e \<Rightarrow> None)"

text \<open>
  Deduplication in the words of the specification: of the elements that have a rounded
  coordinate pair, the first of each pair, in the order of the payload.
\<close>

fun first_seen :: "real \<Rightarrow> real \<Rightarrow> json list \<Rightarrow> (real \<times> real) set \<Rightarrow> json list" where
  "first_seen lat lng [] seen = []"
| "first_seen lat lng (el # els) seen =
     (case element_key lat lng el of
        None \<Rightarrow> first_seen lat lng els seen
      | Some key \<Rightarrow>
          if key \<in> seen then first_seen lat lng els seen
          else el # first_seen lat lng els (insert key seen))"

text \<open>An element that is not a node and has no center, or an empty one.\<close>

definition area_without_center :: "json \<Rightarrow> bool" where
  "area_without_center el =
     (case el of
        JObj kvs \<Rightarrow>
          (case map_of kvs ''type'' of
             None \<Rightarrow> False
           | Some ty \<Rightarrow>
               ty \<noteq> JStr ''node'' \<and>
               (case map_of kvs ''center'' of None \<Rightarrow> True | Some c \<Rightarrow> \<not> truthy c))
      | _ \<Rightarrow> False)"

text \<open>An element without \<^verbatim>\<open>"type"\<close>, or a node without \<^verbatim>\<open>"lat"\<close> or \<^verbatim>\<open>"lon"\<close>.\<close>

definition malformed :: "json \<Rightarrow> bool" where
  "malformed el =
     (case el of
        JObj kvs \<Rightarrow>
          (case map_of kvs ''type'' of
             None \<Rightarrow> True
           | Some ty \<Rightarrow>
               ty = JStr ''node'' \<and> (map_of kvs ''lat'' = None \<or> map_of kvs ''lon'' = None))
      | _ \<Rightarrow> False)"

text \<open>Values on which \<^verbatim>\<open>.get\<close> exists, and values a \<^verbatim>\<open>for\<close> statement can iterate over.\<close>

fun is_object :: "json \<Rightarrow> bool" where
  "is_object (JObj kvs) = True"
| "is_object v = False"

fun is_iterable :: "json \<Rightarrow> bool" where
  "is_iterable (JArr xs) = True"
| "is_iterable (JObj kvs) = True"
| "is_iterable (JStr s) = True"
| "is_iterable v = False"

subsection \<open>Stub upstreams and example payloads\<close>

text \<open>
  An upstream that answers every query with the given status, status text and body, and
  one whose \<^verbatim>\<open>httpx.post\<close> raises. A float is printed as its integer part: the text of
  the query plays no role in the examples.
\<close>

definition reply_env :: "nat \<Rightarrow> string \<Rightarrow> py_exc + json \<Rightarrow> env" where
  "reply_env code text body =
     \<lparr> float_str = (\<lambda>x. str_nat (nat \<lfloor>x\<rfloor>)),
       http_post = (\<lambda>q. Inr \<lparr> status_code = code, status_message = text, json_body = body \<rparr>) \<rparr>"

definition raising_env :: "py_exc \<Rightarrow> env" where
  "raising_env e = \<lparr> float_str = (\<lambda>x. str_nat (nat \<lfloor>x\<rfloor>)), http_post = (\<lambda>q. Inl e) \<rparr>"

definition stub_env :: "json \<Rightarrow> env" where
  "stub_env payload = reply_env 200 [] (Inr payload)"

definition node :: "real \<Rightarrow> real \<Rightarrow> (string \<times> string) list \<Rightarrow> json" where
  "node elat elng tags =
     JObj [(''type'', JStr ''node''), (''lat'', JFloat elat), (''lon'', JFloat elng),
           (''tags'', str_tags tags)]"

text \<open>The two elements of the specification's example, about a metre apart.\<close>

definition twin_elements :: "json list" where
  "twin_elements =
     [node 12.97150 77.59460 [(''amenity'', ''hospital'')],
      node 12.97151 77.59462 [(''amenity'', ''pharmacy'')]]"

text \<open>A way without a center between two nodes.\<close>

definition bare_way :: json where
  "bare_way = JObj [(''type'', JStr ''way''), (''tags'', str_tags [(''leisure'', ''park'')])]"

text \<open>
  A node 0.000006 degrees north of the query point \<open>(12.971646, 77.5946)\<close>, in another
  cell of the rounding grid, followed by a way whose center has neither \<^verbatim>\<open>"lat"\<close> nor
  \<^verbatim>\<open>"lon"\<close>.
\<close>

definition tie_center :: "(string \<times> json) list" where
  "tie_center = [(''latitude'', JFloat 12.9), (''longitude'', JFloat 77.5)]"

definition tie_way :: "(string \<times> json) list" where
  "tie_way =
     [(''type'', JStr ''way''), (''center'', JObj tie_center),
      (''tags'', str_tags [(''amenity'', ''hospital'')])]"

definition tie_elements :: "json list" where
  "tie_elements = [node 12.971652 77.5946 [(''amenity'', ''pharmacy'')], JObj tie_way]"

text \<open>A well-formed node followed by a node without \<^verbatim>\<open>"lat"\<close>.\<close>

definition broken_elements :: "json list" where
  "broken_elements =
     [node 12.9716 77.5946 [(''amenity'', ''hospital'')],
      JObj [(''type'', JStr ''node''), (''lon'', JFloat 77.5950)]]"

text \<open>A node 0.05 degrees north of the query point \<open>(12.9716, 77.5946)\<close>.\<close>

definition far_elements :: "json list" where
  "far_elements = [node 13.0216 77.5946 [(''amenity'', ''hospital'')]]"

text \<open>
  Sixteen nodes on the meridian of the query point \<open>(12.9716, 77.5946)\<close>, 0.01 degrees
  (about 1.1 km) apart, nearest first.
\<close>

definition rung :: "real \<Rightarrow> json" where
  "rung i = node (12.9716 + i / 100) 77.5946 []"

definition ladder_elements :: "json list" where
  "ladder_elements =
     [rung 1, rung 2, rung 3, rung 4, rung 5, rung 6, rung 7, rung 8,
      rung 9, rung 10, rung 11, rung 12, rung 13, rung 14, rung 15, rung 16]"

text \<open>
  What the upstream service answers when the query runs into its own timeout: status
  200 and a payload with no elements and a remark.
\<close>

definition timeout_remark :: json where
  "timeout_remark =
     JObj [(''version'', JFloat 0.6), (''elements'', JArr []),
           (''remark'', JStr ''runtime error: Query timed out'')]"

section \<open>Auxiliary facts\<close>

subsection \<open>The distance\<close>

text \<open>
  In exact arithmetic the quantity \<^verbatim>\<open>a\<close> lies in \<open>[0, 1]\<close>, so neither square root of
  \<^verbatim>\<open>haversine\<close> raises: \<open>a\<close> is a convex combination of \<open>sin\<^sup>2 ((\<phi>\<^sub>2 - \<phi>\<^sub>1) / 2)\<close> and
  \<open>(1 + cos (\<phi>\<^sub>1 + \<phi>\<^sub>2)) / 2\<close>.
\<close>

lemma half_unit_interval:
  fixes t :: real
  assumes "- 1 \<le> t" and "t \<le> 1"
  shows "0 \<le> (1 + t) / 2" and "(1 + t) / 2 \<le> 1"
  using assms by simp_all

lemma hav_arg_bounds:
  fixes p1 p2 v :: real
  defines "a \<equiv> (sin ((p2 - p1) / 2))\<^sup>2 + cos p1 * cos p2 * (sin v)\<^sup>2"
  shows "0 \<le> a" and "a \<le> 1"
proof -
  define s where "s = (sin v)\<^sup>2"
  define A where "A = (sin ((p2 - p1) / 2))\<^sup>2"
  define B where "B = A + cos p1 * cos p2"
  have s: "0 \<le> s" "s \<le> 1" by (simp_all add: s_def abs_square_le_1)
  have A: "0 \<le> A" "A \<le> 1" by (simp_all add: A_def abs_square_le_1)
  have "2 * ((p2 - p1) / 2) = p2 - p1" by simp
  then have "cos (p2 - p1) = 1 - 2 * A"
    using cos_double_sin [of "(p2 - p1) / 2"] by (simp only: A_def)
  then have Beq: "B = (1 + cos (p1 + p2)) / 2"
    by (simp add: B_def cos_diff cos_add algebra_simps)
  have c: "-1 \<le> cos (p1 + p2)" "cos (p1 + p2) \<le> 1" by simp_all
  have B0: "0 \<le> B" unfolding Beq by (rule half_unit_interval [OF c])
  have B1: "B \<le> 1" unfolding Beq by (rule half_unit_interval [OF c])
  have a: "a = (1 - s) * A + s * B"
    by (simp add: a_def s_def A_def B_def algebra_simps)
  have n1: "0 \<le> (1 - s) * A" and n2: "0 \<le> s * B" using s A B0 by simp_all
  have "(1 - s) * A \<le> (1 - s) * 1"
    by (rule mult_left_mono) (use s A in simp_all)
  then have u1: "(1 - s) * A \<le> 1 - s" by simp
  have "s * B \<le> s * 1"
    by (rule mult_left_mono) (use s B1 in simp_all)
  then have u2: "s * B \<le> s" by simp
  show "0 \<le> a" unfolding a using n1 n2 by linarith
  show "a \<le> 1" unfolding a using u1 u2 by linarith
qed

lemma hav_a_bounds: "0 \<le> hav_a lat lng elat elng" "hav_a lat lng elat elng \<le> 1"
proof -
  have eq: "radians (elat - lat) / 2 = (radians elat - radians lat) / 2"
    by (simp add: radians_def algebra_simps diff_divide_distrib)
  show "0 \<le> hav_a lat lng elat elng" "hav_a lat lng elat elng \<le> 1"
    unfolding hav_a_def eq
    by (rule hav_arg_bounds)+
qed

lemma haversine_numbers:
  assumes "as_number elat = Some x" and "as_number elng = Some y"
  shows "haversine lat lng elat elng =
           Inr (py_int (6371000 * 2 * atan2 (sqrt (hav_a lat lng x y)) (sqrt (1 - hav_a lat lng x y))))"
  using assms hav_a_bounds [of lat lng x y]
  by (simp add: haversine_def Let_def py_sqrt_def hav_a_def [symmetric] not_less)

lemma haversine_floats:
  "haversine lat lng (JFloat x) (JFloat y) =
     Inr (py_int (6371000 * 2 * atan2 (sqrt (hav_a lat lng x y)) (sqrt (1 - hav_a lat lng x y))))"
  by (simp add: haversine_numbers)

lemma atan2_nonneg: "0 \<le> y \<Longrightarrow> 0 \<le> x \<Longrightarrow> 0 \<le> atan2 y x"
  by (auto simp: atan2_def)

lemma haversine_nonneg:
  assumes "haversine lat lng elat elng = Inr d"
  shows "0 \<le> d"
proof -
  from assms obtain x y where xy: "as_number elat = Some x" "as_number elng = Some y"
    by (auto simp: haversine_def split: option.splits)
  have "0 \<le> atan2 (sqrt (hav_a lat lng x y)) (sqrt (1 - hav_a lat lng x y))"
    using hav_a_bounds [of lat lng x y] by (intro atan2_nonneg) simp_all
  then have "0 \<le> py_int (6371000 * 2 * atan2 (sqrt (hav_a lat lng x y)) (sqrt (1 - hav_a lat lng x y)))"
    by (simp add: py_int_def)
  with assms show ?thesis by (simp add: haversine_numbers [OF xy])
qed

lemma haversine_Inr_numbers:
  "haversine lat lng elat elng = Inr d \<Longrightarrow> \<exists>x y. as_number elat = Some x \<and> as_number elng = Some y"
  by (auto simp: haversine_def split: option.splits)

lemma hav_a_self: "hav_a lat lng lat lng = 0"
  by (simp add: hav_a_def radians_def)

lemma haversine_at_query_point: "haversine lat lng (JFloat lat) (JFloat lng) = Inr 0"
  by (simp add: haversine_numbers hav_a_self atan2_def py_int_def)

text \<open>
  Along a meridian, less than half a turn to the north, the distance is the arc length
  \<open>R \<cdot> \<Delta>\<phi>\<close>, truncated.
\<close>

lemma haversine_same_lng:
  assumes d: "0 \<le> elat - lat" "elat - lat < 180"
      and n: "as_number e1 = Some elat" "as_number e2 = Some lng"
  shows "haversine lat lng e1 e2 = Inr \<lfloor>6371000 * radians (elat - lat)\<rfloor>"
proof -
  define t where "t = radians (elat - lat) / 2"
  have t0: "0 \<le> t" using d(1) by (simp add: t_def radians_def)
  have "(elat - lat) * pi < 180 * pi" using d(2) by simp
  then have t1: "t < pi / 2" by (simp add: t_def radians_def)
  have s0: "0 \<le> sin t" using t0 t1 by (intro sin_ge_zero) simp_all
  have c0: "0 < cos t" using t0 t1 by (intro cos_gt_zero_pi) simp_all
  have a: "hav_a lat lng elat lng = (sin t)\<^sup>2"
    by (simp add: hav_a_def t_def radians_def)
  have sa: "sqrt (hav_a lat lng elat lng) = sin t" using s0 by (simp add: a)
  have "1 - (sin t)\<^sup>2 = (cos t)\<^sup>2" by (simp add: cos_squared_eq)
  then have sb: "sqrt (1 - hav_a lat lng elat lng) = cos t" using c0 by (simp add: a)
  have "atan2 (sin t) (cos t) = arctan (tan t)" using c0 by (simp add: atan2_def tan_def)
  also have "\<dots> = t" using t0 t1 by (intro arctan_tan) simp_all
  finally have at: "atan2 (sin t) (cos t) = t" .
  have eq: "6371000 * 2 * t = 6371000 * radians (elat - lat)" by (simp add: t_def)
  have "0 \<le> 6371000 * 2 * t" using t0 by simp
  then have "py_int (6371000 * 2 * t) = \<lfloor>6371000 * 2 * t\<rfloor>" by (simp add: py_int_def)
  also have "\<dots> = \<lfloor>6371000 * radians (elat - lat)\<rfloor>" by (simp only: eq)
  finally have "py_int (6371000 * 2 * t) = \<lfloor>6371000 * radians (elat - lat)\<rfloor>" .
  then show ?thesis by (simp only: haversine_numbers [OF n] sa sb at)
qed

lemma haversine_north:
  "0 \<le> elat - lat \<Longrightarrow> elat - lat < 180 \<Longrightarrow>
     haversine lat lng (JFloat elat) (JFloat lng) = Inr \<lfloor>6371000 * radians (elat - lat)\<rfloor>"
  by (rule haversine_same_lng) simp_all

lemma north_distance_mono:
  "a \<le> b \<Longrightarrow> \<lfloor>6371000 * radians a\<rfloor> \<le> \<lfloor>6371000 * radians b\<rfloor>"
  by (intro floor_mono) (simp add: radians_def)

subsection \<open>Labels\<close>





subsection \<open>The loop\<close>

text \<open>
  A pass of the loop body that does not raise either leaves the state alone or appends
  the Place Result of the element and records its key.
\<close>

lemma loop_body_cases:
  assumes "loop_body lat lng el (ps, seen) = Inr (ps', seen')"
  shows "case element_key lat lng el of
           None \<Rightarrow> ps' = ps \<and> seen' = seen
         | Some k \<Rightarrow>
             if k \<in> seen then ps' = ps \<and> seen' = seen
             else (\<exists>p. element_place lat lng el = Some p \<and> ps' = ps @ [p] \<and> seen' = insert k seen)"
  using assms
  by (cases el) (auto simp: Let_def split: sum.splits option.splits if_splits prod.splits)

text \<open>
  Hence a run of the loop that does not raise appends the Place Results of the
  first-seen elements, in their order.
\<close>

lemma for_elements_char:
  assumes "for_elements lat lng els (ps, seen) = Inr (ps', seen')"
  shows "\<exists>qs. ps' = ps @ qs \<and>
              list_all2 (\<lambda>e p. element_place lat lng e = Some p) (first_seen lat lng els seen) qs"
  using assms
proof (induction els arbitrary: ps seen)
  case Nil
  then show ?case by simp
next
  case (Cons el els)
  from Cons.prems obtain ps1 seen1 where
    step: "loop_body lat lng el (ps, seen) = Inr (ps1, seen1)" and
    rest: "for_elements lat lng els (ps1, seen1) = Inr (ps', seen')"
    by (auto split: sum.splits)
  from Cons.IH [OF rest] obtain qs where
    qs: "ps' = ps1 @ qs"
        "list_all2 (\<lambda>e p. element_place lat lng e = Some p) (first_seen lat lng els seen1) qs"
    by blast
  show ?case
  proof (cases "element_key lat lng el")
    case None
    with loop_body_cases [OF step] qs show ?thesis by simp
  next
    case (Some k)
    show ?thesis
    proof (cases "k \<in> seen")
      case True
      with Some loop_body_cases [OF step] qs show ?thesis by simp
    next
      case False
      with Some loop_body_cases [OF step] obtain p where
        p: "element_place lat lng el = Some p" "ps1 = ps @ [p]" "seen1 = insert k seen"
        by auto
      with qs Some False show ?thesis by simp
    qed
  qed
qed

lemma for_elements_append:
  "for_elements lat lng (xs @ ys) st =
     (case for_elements lat lng xs st of Inl e \<Rightarrow> Inl e | Inr st' \<Rightarrow> for_elements lat lng ys st')"
  by (induction xs arbitrary: st) (auto split: sum.splits)

lemma first_seen_filter:
  "filter (\<lambda>e. element_key lat lng e = Some k) (first_seen lat lng els seen) =
     (if k \<in> seen then []
      else case find (\<lambda>e. element_key lat lng e = Some k) els of None \<Rightarrow> [] | Some e0 \<Rightarrow> [e0])"
  by (induction els arbitrary: seen) (auto split: option.splits)

lemma list_all2_filter_rel:
  assumes "list_all2 R xs ys" and "\<And>x y. R x y \<Longrightarrow> P x = Q y"
  shows "list_all2 R (filter P xs) (filter Q ys)"
  using assms by (induction rule: list_all2_induct) auto

lemma make_place_coords:
  assumes "make_place lat lng tags elat elng = Inr p"
  shows "place_lat p = elat" "place_lng p = elng" "haversine lat lng elat elng = Inr (distance_m p)"
  using assms by (auto simp: make_place_def split: sum.splits json.splits)

lemma coord_key_numbers:
  "as_number elat = Some x \<Longrightarrow> as_number elng = Some y \<Longrightarrow>
     coord_key elat elng =
       Inr (of_int (round_half_even (x * 10 ^ 4)) / 10 ^ 4, of_int (round_half_even (y * 10 ^ 4)) / 10 ^ 4)"
  by (simp add: coord_key_def py_round_def)

lemma element_place_key:
  assumes "element_place lat lng el = Some p"
  shows "\<exists>k. element_key lat lng el = Some k \<and> place_key p = Some k"
proof (cases el)
  case (JObj kvs)
  with assms obtain elat elng where
    loc: "locate lat lng kvs = Inr (Some (elat, elng))" and
    mk: "make_place lat lng (dict_get kvs ''tags'' (JObj [])) elat elng = Inr p"
    by (auto split: sum.splits option.splits)
  from make_place_coords [OF mk] haversine_Inr_numbers obtain x y where
    "as_number elat = Some x" "as_number elng = Some y" by blast
  from coord_key_numbers [OF this] obtain k where "coord_key elat elng = Inr k" by blast
  with JObj loc make_place_coords(1,2) [OF mk] show ?thesis
    by (simp add: place_key_def)
qed (use assms in simp_all)

lemma element_place_distance:
  assumes "element_place lat lng el = Some p"
  shows "0 \<le> distance_m p"
proof (cases el)
  case (JObj kvs)
  with assms obtain elat elng where
    "make_place lat lng (dict_get kvs ''tags'' (JObj [])) elat elng = Inr p"
    by (auto split: sum.splits option.splits)
  from make_place_coords(3) [OF this] show ?thesis by (rule haversine_nonneg)
qed (use assms in simp_all)

lemma for_elements_nonneg:
  assumes "for_elements lat lng els ([], {}) = Inr (ps, seen)" and "p \<in> set ps"
  shows "0 \<le> distance_m p"
proof -
  from for_elements_char [OF assms(1)]
  have "list_all2 (\<lambda>e p. element_place lat lng e = Some p) (first_seen lat lng els {}) ps" by simp
  with assms(2) obtain e where "element_place lat lng e = Some p"
    by (auto simp: list_all2_conv_all_nth in_set_conv_nth)
  then show ?thesis by (rule element_place_distance)
qed

lemma built_places_for_key:
  assumes loop: "for_elements lat lng els ([], {}) = Inr (ps, seen)"
      and el: "el \<in> set els" and key: "element_key lat lng el = Some k"
  shows "\<exists>e0 p. find (\<lambda>e. element_key lat lng e = Some k) els = Some e0 \<and>
                element_place lat lng e0 = Some p \<and>
                filter (\<lambda>q. place_key q = Some k) ps = [p]"
proof -
  let ?P = "\<lambda>e. element_key lat lng e = Some k"
  let ?Q = "\<lambda>q. place_key q = Some k"
  let ?R = "\<lambda>e p. element_place lat lng e = Some p"
  from for_elements_char [OF loop]
  have all2: "list_all2 ?R (first_seen lat lng els {}) ps" by simp
  have "list_all2 ?R (filter ?P (first_seen lat lng els {})) (filter ?Q ps)"
  proof (rule list_all2_filter_rel [OF all2])
    fix e p assume "element_place lat lng e = Some p"
    from element_place_key [OF this] show "?P e = ?Q p" by auto
  qed
  moreover from el key obtain e0 where e0: "find ?P els = Some e0"
    by (cases "find ?P els") (auto simp: find_None_iff)
  ultimately have "list_all2 ?R [e0] (filter ?Q ps)"
    by (simp add: first_seen_filter)
  then obtain p where "filter ?Q ps = [p]" "element_place lat lng e0 = Some p"
    by (auto simp: list_all2_Cons1)
  with e0 show ?thesis by blast
qed

subsection \<open>Skipped and malformed elements\<close>

lemma area_without_center_locate:
  assumes "area_without_center (JObj el)"
  shows "locate lat lng el = Inr None"
  using assms
  by (auto simp: area_without_center_def locate_def subscript_def dict_get_def Let_def
           split: option.splits)

lemma area_without_center_body:
  assumes "area_without_center el"
  shows "loop_body lat lng el (ps, seen) = Inr (ps, seen)"
proof (cases el)
  case (JObj kvs)
  with assms area_without_center_locate [of kvs lat lng] show ?thesis by simp
qed (use assms in \<open>simp_all add: area_without_center_def\<close>)

lemma for_elements_skip:
  assumes "area_without_center el"
  shows "for_elements lat lng (xs @ el # ys) st = for_elements lat lng (xs @ ys) st"
proof -
  have "for_elements lat lng (el # ys) st' = for_elements lat lng ys st'" for st'
    using area_without_center_body [OF assms] by (cases st') simp
  then show ?thesis by (simp add: for_elements_append split: sum.splits)
qed

lemma malformed_body:
  assumes "malformed el"
  shows "\<exists>e. loop_body lat lng el (ps, seen) = Inl e"
proof (cases el)
  case (JObj kvs)
  with assms have "\<exists>e. locate lat lng kvs = Inl e"
    by (auto simp: malformed_def locate_def subscript_def split: option.splits)
  with JObj show ?thesis by auto
qed (use assms in \<open>simp_all add: malformed_def\<close>)

lemma for_elements_malformed:
  assumes "el \<in> set els" and "malformed el"
  shows "\<exists>e. for_elements lat lng els st = Inl e"
  using assms(1)
proof (induction els arbitrary: st)
  case Nil
  then show ?case by simp
next
  case (Cons x xs)
  obtain ps seen where st: "st = (ps, seen)" by (cases st)
  show ?case
  proof (cases "loop_body lat lng x st")
    case (Inl e)
    then show ?thesis by simp
  next
    case (Inr st')
    with malformed_body [OF assms(2), of lat lng ps seen] st have "x \<noteq> el" by auto
    with Cons.prems have "el \<in> set xs" by simp
    from Cons.IH [OF this] Inr show ?thesis by simp
  qed
qed

subsection \<open>The texts of the exceptions the handler raises itself\<close>

lemma subscript_message: "subscript kvs k = Inl e \<Longrightarrow> str_exc e \<noteq> []"
  by (auto simp: subscript_def split: option.splits)

lemma get_message: "get v k d = Inl e \<Longrightarrow> str_exc e \<noteq> []"
  by (cases v) auto

lemma locate_message: "locate lat lng el = Inl e \<Longrightarrow> str_exc e \<noteq> []"
  by (auto simp: locate_def Let_def split: sum.splits if_splits
           dest: subscript_message get_message)

lemma py_round_message: "py_round v n = Inl e \<Longrightarrow> str_exc e \<noteq> []"
  by (auto simp: py_round_def split: option.splits)

lemma coord_key_message: "coord_key elat elng = Inl e \<Longrightarrow> str_exc e \<noteq> []"
  by (auto simp: coord_key_def split: sum.splits dest: py_round_message)

lemma haversine_message: "haversine lat lng elat elng = Inl e \<Longrightarrow> str_exc e \<noteq> []"
  by (auto simp: haversine_def Let_def unsupported_minus_def py_sqrt_def
           split: option.splits sum.splits if_splits)

lemma label_of_message: "label_of v = Inl e \<Longrightarrow> str_exc e \<noteq> []"
  by (cases v) auto

lemma first_label_message: "first_label keys = Inl e \<Longrightarrow> str_exc e \<noteq> []"
  by (induction keys) (auto split: sum.splits option.splits dest: label_of_message)

lemma title_method_message: "title_method v = Inl e \<Longrightarrow> str_exc e \<noteq> []"
  by (cases v) auto

lemma friendly_name_message: "friendly_name tags = Inl e \<Longrightarrow> str_exc e \<noteq> []"
  by (cases tags) (auto simp: Let_def split: if_splits dest: first_label_message title_method_message)

lemma make_place_message: "make_place lat lng tags elat elng = Inl e \<Longrightarrow> str_exc e \<noteq> []"
  by (auto simp: make_place_def split: sum.splits json.splits
           dest: haversine_message friendly_name_message)

lemma loop_body_message: "loop_body lat lng el st = Inl e \<Longrightarrow> str_exc e \<noteq> []"
proof (cases el; cases st)
  fix kvs ps seen assume "el = JObj kvs" "st = (ps, seen)" "loop_body lat lng el st = Inl e"
  then show ?thesis
    by (auto simp: Let_def split: sum.splits option.splits if_splits prod.splits
             dest: locate_message coord_key_message make_place_message)
qed auto

lemma for_elements_message: "for_elements lat lng els st = Inl e \<Longrightarrow> str_exc e \<noteq> []"
  by (induction els arbitrary: st) (auto split: sum.splits dest: loop_body_message)

lemma iter_message: "iter v = Inl e \<Longrightarrow> str_exc e \<noteq> []"
  by (cases v) auto

lemma get_not_object:
  "\<not> is_object v \<Longrightarrow> get v k d = Inl (AttributeError (type_name v) ''get'')"
  by (cases v) simp_all

lemma iter_not_iterable:
  "\<not> is_iterable v \<Longrightarrow>
     iter v = Inl (TypeError ([CHR 0x27] @ type_name v @ [CHR 0x27] @ '' object is not iterable''))"
  by (cases v) simp_all

subsection \<open>The handler\<close>

lemma sorted_take_sort_key:
  "sorted (map f (take n (sort_key f xs)))"
  by (simp add: take_map [symmetric] sorted_wrt_take)

lemma dropped_by_the_cap:
  assumes "p \<in> set xs" and "p \<notin> set (take n (sort_key f xs))"
  shows "length (take n (sort_key f xs)) = n \<and> (\<forall>q\<in>set (take n (sort_key f xs)). f q \<le> f p)"
proof -
  let ?s = "sort_key f xs"
  have split: "?s = take n ?s @ drop n ?s" by simp
  from assms(1) have "p \<in> set ?s" by simp
  then have "p \<in> set (take n ?s) \<or> p \<in> set (drop n ?s)"
    by (metis Un_iff append_take_drop_id set_append)
  with assms(2) have in_drop: "p \<in> set (drop n ?s)" by blast
  then have "drop n ?s \<noteq> []" by auto
  then have len: "length (take n ?s) = n" by simp
  have "sorted (map f (take n ?s) @ map f (drop n ?s))"
    by (simp only: map_append [symmetric] append_take_drop_id sorted_sort_key)
  from this [unfolded sorted_append]
  have "\<forall>x\<in>set (take n ?s). \<forall>y\<in>set (drop n ?s). f x \<le> f y"
    by auto
  with in_drop len show ?thesis by blast
qed

lemma nearby_eq:
  "nearby env lat lng filter_arg =
     (case try_block env lat lng (effective_filter filter_arg) of
        Inl e \<Rightarrow> \<lparr> places = [], error = Some (str_exc e) \<rparr>
      | Inr ps \<Rightarrow> \<lparr> places = ps, error = None \<rparr>)"
  by (simp add: nearby_def effective_filter_def)

lemma nearby_loop_success:
  assumes "fetch env lat lng (effective_filter filter_arg) = Inr (JArr els)"
      and "for_elements lat lng els ([], {}) = Inr (ps, seen)"
  shows "nearby env lat lng filter_arg = \<lparr> places = take 15 (sort_key distance_m ps), error = None \<rparr>"
  using assms by (simp add: nearby_eq try_block_def)

lemma nearby_loop_failure:
  assumes "fetch env lat lng (effective_filter filter_arg) = Inr (JArr els)"
      and "for_elements lat lng els ([], {}) = Inl e"
  shows "nearby env lat lng filter_arg = \<lparr> places = [], error = Some (str_exc e) \<rparr>"
  using assms by (simp add: nearby_eq try_block_def)

lemma nearby_success_loop:
  assumes "fetch env lat lng (effective_filter filter_arg) = Inr (JArr els)"
      and "error (nearby env lat lng filter_arg) = None"
  obtains ps seen where "for_elements lat lng els ([], {}) = Inr (ps, seen)"
    and "places (nearby env lat lng filter_arg) = take 15 (sort_key distance_m ps)"
proof (cases "for_elements lat lng els ([], {})")
  case (Inl e)
  from nearby_loop_failure [OF assms(1) Inl] assms(2) show ?thesis by simp
next
  case (Inr st)
  obtain ps seen where st: "st = (ps, seen)" by (cases st)
  from nearby_loop_success [OF assms(1) Inr [unfolded st]] Inr st that show ?thesis by simp
qed

lemma try_block_Inl_cases:
  assumes "try_block env lat lng flt = Inl e"
  shows "http_post env (query env lat lng flt) = Inl e \<or>
         (\<exists>resp. http_post env (query env lat lng flt) = Inr resp \<and>
            (\<not> is_success resp \<and> e = LibraryError (status_message resp) \<or>
             is_success resp \<and> json_body resp = Inl e)) \<or>
         str_exc e \<noteq> []"
  using assms
  by (auto simp: try_block_def fetch_def raise_for_status_def is_success_def
           split: sum.splits if_splits prod.splits
           dest: get_message iter_message for_elements_message)

lemma filter_sort_key_single:
  assumes "filter Q xs = [p]"
  shows "filter Q (sort_key f xs) = [p]"
proof -
  have "mset (filter Q (sort_key f xs)) = mset (filter Q xs)" by simp
  also have "\<dots> = {#p#}" by (simp only: assms mset.simps)
  finally show ?thesis by (simp only: mset_single_iff)
qed

lemma filter_take_single:
  assumes "filter Q xs = [p]"
  shows "filter Q (take n xs) = [p] \<or> filter Q (take n xs) = []"
proof -
  have "filter Q (take n xs) @ filter Q (drop n xs) = filter Q xs"
    by (metis append_take_drop_id filter_append)
  with assms show ?thesis by (auto simp: append_eq_Cons_conv)
qed

lemma nearby_places_nonneg:
  assumes "p \<in> set (places (nearby env lat lng filter_arg))"
  shows "0 \<le> distance_m p"
proof -
  from assms obtain els ps seen where
    "for_elements lat lng els ([], {}) = Inr (ps, seen)" "p \<in> set (take 15 (sort_key distance_m ps))"
    by (auto simp: nearby_eq try_block_def split: sum.splits prod.splits)
  moreover from this(2) have "p \<in> set ps" by (auto dest: in_set_takeD)
  ultimately show ?thesis by (auto intro: for_elements_nonneg)
qed

lemma nearby_places_sorted:
  "sorted (map distance_m (places (nearby env lat lng filter_arg)))"
  by (simp add: nearby_eq try_block_def sorted_take_sort_key split: sum.split prod.split)

lemma zero_ranks_before_positive:
  assumes "places (nearby env lat lng filter_arg) = pre @ p # post" and "distance_m p = 0"
      and "q \<in> set pre"
  shows "distance_m q = 0"
proof -
  from nearby_places_sorted [of env lat lng filter_arg] assms
  have "distance_m q \<le> 0" by (auto simp: sorted_append)
  moreover have "0 \<le> distance_m q"
    by (rule nearby_places_nonneg [of _ env lat lng filter_arg]) (use assms in simp)
  ultimately show ?thesis by simp
qed

subsection \<open>Evaluation of the examples\<close>

lemmas eval_defs = nearby_def try_block_def fetch_def stub_env_def reply_env_def raising_env_def node_def str_tags_def raise_for_status_def
  dict_get_def locate_def subscript_def coord_key_def py_round_def round_half_even_def
  make_place_def category_tags_def label_map_def py_or_def Let_def

lemmas key_defs = locate_def subscript_def dict_get_def coord_key_def py_round_def
  round_half_even_def Let_def node_def str_tags_def

lemmas fetch_defs = fetch_def stub_env_def reply_env_def raising_env_def raise_for_status_def
  dict_get_def effective_filter_def

lemma str_nat_r: "str_nat r = ''2000''"
  unfolding r_def by code_simp

text \<open>
  Two distances that need a bound on \<open>\<pi>\<close>: 0.000006 degrees of latitude are less than a
  metre (\<open>\<pi> < 4\<close>), 0.05 degrees are more than 2000 metres (\<open>2 \<le> \<pi>\<close>).
\<close>

lemma haversine_below_one_metre:
  "haversine 12.971646 77.5946 (JFloat 12.971652) (JFloat 77.5946) = Inr 0"
proof -
  have "haversine 12.971646 77.5946 (JFloat 12.971652) (JFloat 77.5946)
          = Inr \<lfloor>6371000 * radians (12.971652 - 12.971646)\<rfloor>"
    by (rule haversine_same_lng) simp_all
  moreover have "\<lfloor>6371000 * radians (12.971652 - 12.971646)\<rfloor> = 0"
  proof (rule floor_unique)
    show "of_int 0 \<le> 6371000 * radians (12.971652 - 12.971646)"
      by (simp add: radians_def)
    have "6371000 * radians (12.971652 - 12.971646) < 6371000 * ((12.971652 - 12.971646) * 4 / 180)"
      using pi_less_4 by (simp add: radians_def)
    also have "\<dots> < 1" by simp
    finally show "6371000 * radians (12.971652 - 12.971646) < of_int 0 + 1" by simp
  qed
  ultimately show ?thesis by simp
qed

lemma far_distance:
  "\<exists>d. haversine 12.9716 77.5946 (JFloat 13.0216) (JFloat 77.5946) = Inr d \<and> 2000 < d"
proof -
  have "haversine 12.9716 77.5946 (JFloat 13.0216) (JFloat 77.5946)
          = Inr \<lfloor>6371000 * radians (13.0216 - 12.9716)\<rfloor>"
    by (rule haversine_same_lng) simp_all
  moreover have "2000 < \<lfloor>6371000 * radians (13.0216 - 12.9716)\<rfloor>"
  proof -
    have "(2001::real) \<le> 6371000 * ((13.0216 - 12.9716) * 2 / 180)" by simp
    also have "\<dots> \<le> 6371000 * radians (13.0216 - 12.9716)"
      using pi_ge_two by (simp add: radians_def)
    finally have "of_int 2001 \<le> 6371000 * radians (13.0216 - 12.9716)" by simp
    then have "2001 \<le> \<lfloor>6371000 * radians (13.0216 - 12.9716)\<rfloor>" by (simp only: le_floor_iff)
    then show ?thesis by simp
  qed
  ultimately show ?thesis by blast
qed

lemma twin_loc:
  "fetch (stub_env (JObj [(''elements'', JArr twin_elements)])) 12.9716 77.5946 (effective_filter None)
     = Inr (JArr twin_elements)"
  by (simp add: fetch_def stub_env_def reply_env_def raise_for_status_def dict_get_def)

lemma twin_distance:
  "\<exists>d. haversine 12.9716 77.5946 (JFloat 12.97150) (JFloat 77.59460) = Inr d"
  by (simp add: haversine_floats)

text \<open>
  The sixteen nodes of \<open>ladder_elements\<close> all yield a Place Result; the fifteen nearest
  are those of the first fifteen nodes.
\<close>

lemma ladder_places:
  "\<exists>ps seen.
      for_elements 12.9716 77.5946 ladder_elements ([], {}) = Inr (ps, seen) \<and>
      map place_lat ps =
        [JFloat 12.9816, JFloat 12.9916, JFloat 13.0016, JFloat 13.0116, JFloat 13.0216,
         JFloat 13.0316, JFloat 13.0416, JFloat 13.0516, JFloat 13.0616, JFloat 13.0716,
         JFloat 13.0816, JFloat 13.0916, JFloat 13.1016, JFloat 13.1116, JFloat 13.1216,
         JFloat 13.1316] \<and>
      map place_lat (take 15 (sort_key distance_m ps)) =
        [JFloat 12.9816, JFloat 12.9916, JFloat 13.0016, JFloat 13.0116, JFloat 13.0216,
         JFloat 13.0316, JFloat 13.0416, JFloat 13.0516, JFloat 13.0616, JFloat 13.0716,
         JFloat 13.0816, JFloat 13.0916, JFloat 13.1016, JFloat 13.1116, JFloat 13.1216]"
  by (simp add: ladder_elements_def rung_def key_defs make_place_def haversine_north
        north_distance_mono category_tags_def label_map_def py_or_def)

lemma ladder_first_seen: "length (first_seen 12.9716 77.5946 ladder_elements {}) = 16"
  by (simp add: ladder_elements_def rung_def key_defs)

section \<open>Properties of the resolver\<close>

subsection \<open>Failure of the upstream query\<close>

text \<open>
  Claim C1, as amended. The handler never raises: \<open>nearby\<close> always returns a response.
  It returns \<^verbatim>\<open>{"places": [], "error": str(e)}\<close>
  \<^item> when \<^verbatim>\<open>httpx.post\<close> raises \<open>e\<close>;
  \<^item> when the status is outside 200-299 (the text is that of the status exception);
  \<^item> when \<^verbatim>\<open>resp.json()\<close> raises \<open>e\<close>;
  \<^item> when the payload is not a JSON object;
  \<^item> when \<^verbatim>\<open>"elements"\<close> is \<^verbatim>\<open>null\<close>, a boolean or a number.

  The text is empty only if the HTTP library gave an empty text: every exception that the
  handler's own processing raises has a non-empty one.
\<close>

theorem upstream_failure_degrades:
  fixes env lat lng filter_arg
  defines "q \<equiv> query env lat lng (effective_filter filter_arg)"
      and "res \<equiv> nearby env lat lng filter_arg"
  shows
    "(\<forall>e. http_post env q = Inl e \<longrightarrow> res = \<lparr> places = [], error = Some (str_exc e) \<rparr>) \<and>
     (\<forall>resp. http_post env q = Inr resp \<and> \<not> is_success resp \<longrightarrow>
        res = \<lparr> places = [], error = Some (status_message resp) \<rparr>) \<and>
     (\<forall>resp e. http_post env q = Inr resp \<and> is_success resp \<and> json_body resp = Inl e \<longrightarrow>
        res = \<lparr> places = [], error = Some (str_exc e) \<rparr>) \<and>
     (\<forall>resp payload.
        http_post env q = Inr resp \<and> is_success resp \<and> json_body resp = Inr payload \<and>
        \<not> is_object payload \<longrightarrow>
        res = \<lparr> places = [],
                error = Some ([CHR 0x27] @ type_name payload @ [CHR 0x27]
                              @ '' object has no attribute '' @ [CHR 0x27] @ ''get'' @ [CHR 0x27]) \<rparr>) \<and>
     (\<forall>resp kvs v.
        http_post env q = Inr resp \<and> is_success resp \<and> json_body resp = Inr (JObj kvs) \<and>
        map_of kvs ''elements'' = Some v \<and> \<not> is_iterable v \<longrightarrow>
        res = \<lparr> places = [],
                error = Some ([CHR 0x27] @ type_name v @ [CHR 0x27] @ '' object is not iterable'') \<rparr>) \<and>
     (error res = Some [] \<longrightarrow>
        (\<exists>e. http_post env q = Inl e \<and> str_exc e = []) \<or>
        (\<exists>resp. http_post env q = Inr resp \<and>
           (\<not> is_success resp \<and> status_message resp = [] \<or>
            (\<exists>e. is_success resp \<and> json_body resp = Inl e \<and> str_exc e = []))))"
proof -
  have res: "res = (case try_block env lat lng (effective_filter filter_arg) of
        Inl e \<Rightarrow> \<lparr> places = [], error = Some (str_exc e) \<rparr>
      | Inr ps \<Rightarrow> \<lparr> places = ps, error = None \<rparr>)"
    by (simp add: res_def nearby_eq)
  have a: "res = \<lparr> places = [], error = Some (str_exc e) \<rparr>" if "http_post env q = Inl e" for e
    using that by (simp add: res try_block_def fetch_def q_def)
  have b: "res = \<lparr> places = [], error = Some (status_message resp) \<rparr>"
    if "http_post env q = Inr resp \<and> \<not> is_success resp" for resp
    using that by (auto simp: res try_block_def fetch_def q_def raise_for_status_def is_success_def)
  have c: "res = \<lparr> places = [], error = Some (str_exc e) \<rparr>"
    if "http_post env q = Inr resp \<and> is_success resp \<and> json_body resp = Inl e" for resp e
    using that by (auto simp: res try_block_def fetch_def q_def raise_for_status_def is_success_def)
  have d: "res = \<lparr> places = [],
                error = Some ([CHR 0x27] @ type_name payload @ [CHR 0x27]
                              @ '' object has no attribute '' @ [CHR 0x27] @ ''get'' @ [CHR 0x27]) \<rparr>"
    if "http_post env q = Inr resp \<and> is_success resp \<and> json_body resp = Inr payload \<and>
        \<not> is_object payload" for resp payload
    using that
    by (auto simp: res try_block_def fetch_def q_def raise_for_status_def is_success_def get_not_object)
  have e: "res = \<lparr> places = [],
                error = Some ([CHR 0x27] @ type_name v @ [CHR 0x27] @ '' object is not iterable'') \<rparr>"
    if "http_post env q = Inr resp \<and> is_success resp \<and> json_body resp = Inr (JObj kvs) \<and>
        map_of kvs ''elements'' = Some v \<and> \<not> is_iterable v" for resp kvs v
    using that
    by (auto simp: res try_block_def fetch_def q_def raise_for_status_def is_success_def
          dict_get_def iter_not_iterable)
  have f: "(\<exists>e. http_post env q = Inl e \<and> str_exc e = []) \<or>
        (\<exists>resp. http_post env q = Inr resp \<and>
           (\<not> is_success resp \<and> status_message resp = [] \<or>
            (\<exists>e. is_success resp \<and> json_body resp = Inl e \<and> str_exc e = [])))"
    if "error res = Some []"
  proof -
    from that obtain e where e: "try_block env lat lng (effective_filter filter_arg) = Inl e"
      and empty: "str_exc e = []"
      by (auto simp: res split: sum.splits)
    from try_block_Inl_cases [OF e] empty show ?thesis
      unfolding q_def by auto
  qed
  from a b c d e f show ?thesis by blast
qed

text \<open>
  One upstream for each case: a timeout, status 504, a body that is not JSON, a payload
  that is a list, \<^verbatim>\<open>"elements": null\<close>, and an exception without text.
\<close>

theorem upstream_failure_degrades_witness:
  "nearby (raising_env (LibraryError ''timed out'')) 12.9716 77.5946 None
     = \<lparr> places = [], error = Some ''timed out'' \<rparr> \<and>
   nearby (reply_env 504 ''Server error'' (Inr (JObj []))) 12.9716 77.5946 None
     = \<lparr> places = [], error = Some ''Server error'' \<rparr> \<and>
   nearby (reply_env 200 [] (Inl (LibraryError ''Expecting value''))) 12.9716 77.5946 None
     = \<lparr> places = [], error = Some ''Expecting value'' \<rparr> \<and>
   nearby (stub_env (JArr [])) 12.9716 77.5946 None
     = \<lparr> places = [],
         error = Some ([CHR 0x27] @ ''list'' @ [CHR 0x27] @ '' object has no attribute ''
                       @ [CHR 0x27] @ ''get'' @ [CHR 0x27]) \<rparr> \<and>
   nearby (stub_env (JObj [(''elements'', JNull)])) 12.9716 77.5946 None
     = \<lparr> places = [],
         error = Some ([CHR 0x27] @ ''NoneType'' @ [CHR 0x27] @ '' object is not iterable'') \<rparr> \<and>
   error (nearby (raising_env (LibraryError [])) 12.9716 77.5946 None) = Some []"
proof -
  have a: "nearby (raising_env (LibraryError ''timed out'')) 12.9716 77.5946 None
     = \<lparr> places = [], error = Some ''timed out'' \<rparr>"
    using upstream_failure_degrades [of "raising_env (LibraryError ''timed out'')" "12.9716" "77.5946" None]
    by (simp add: raising_env_def)
  have b: "nearby (reply_env 504 ''Server error'' (Inr (JObj []))) 12.9716 77.5946 None
     = \<lparr> places = [], error = Some ''Server error'' \<rparr>"
    using upstream_failure_degrades [of "reply_env 504 ''Server error'' (Inr (JObj []))" "12.9716" "77.5946" None]
    by (simp add: reply_env_def is_success_def)
  have c: "nearby (reply_env 200 [] (Inl (LibraryError ''Expecting value''))) 12.9716 77.5946 None
     = \<lparr> places = [], error = Some ''Expecting value'' \<rparr>"
    using upstream_failure_degrades [of "reply_env 200 [] (Inl (LibraryError ''Expecting value''))" "12.9716" "77.5946" None]
    by (simp add: reply_env_def is_success_def)
  have d: "nearby (stub_env (JArr [])) 12.9716 77.5946 None
     = \<lparr> places = [],
         error = Some ([CHR 0x27] @ ''list'' @ [CHR 0x27] @ '' object has no attribute ''
                       @ [CHR 0x27] @ ''get'' @ [CHR 0x27]) \<rparr>"
    using upstream_failure_degrades [of "stub_env (JArr [])" "12.9716" "77.5946" None]
    by (simp add: stub_env_def reply_env_def is_success_def)
  have e: "nearby (stub_env (JObj [(''elements'', JNull)])) 12.9716 77.5946 None
     = \<lparr> places = [],
         error = Some ([CHR 0x27] @ ''NoneType'' @ [CHR 0x27] @ '' object is not iterable'') \<rparr>"
    using upstream_failure_degrades [of "stub_env (JObj [(''elements'', JNull)])" "12.9716" "77.5946" None]
    by (simp add: stub_env_def reply_env_def is_success_def)
  have f: "error (nearby (raising_env (LibraryError [])) 12.9716 77.5946 None) = Some []"
    using upstream_failure_degrades [of "raising_env (LibraryError [])" "12.9716" "77.5946" None]
    by (simp add: raising_env_def)
  from a b c d e f show ?thesis by blast
qed

text \<open>
  A failed query or an unexpected payload is not always answered with an error. The
  handler does not read the remark with which the service reports that the query ran
  into its timeout; a JSON object without \<^verbatim>\<open>"elements"\<close> is read with the default
  \<^verbatim>\<open>[]\<close> of line 259; an object in place of the array is iterated as an empty
  \<^verbatim>\<open>dict\<close>. All three are answered \<^verbatim>\<open>{"places": []}\<close> without \<^verbatim>\<open>"error"\<close>.
\<close>

theorem unexpected_payload_is_no_error:
  "nearby (stub_env timeout_remark) 12.9716 77.5946 None = \<lparr> places = [], error = None \<rparr> \<and>
   nearby (stub_env (JObj [(''remark'', JStr ''runtime error: Query timed out'')])) 12.9716 77.5946 None
     = \<lparr> places = [], error = None \<rparr> \<and>
   nearby (stub_env (JObj [(''elements'', JObj [])])) 12.9716 77.5946 None
     = \<lparr> places = [], error = None \<rparr>"
  by (simp add: eval_defs timeout_remark_def)

subsection \<open>Ranking and truncation\<close>

text \<open>
  Claim C2. Whatever the query point, the filter and the upstream do, the list under
  \<^verbatim>\<open>"places"\<close> has at most 15 entries and is sorted in non-decreasing order of
  \<^verbatim>\<open>distance_m\<close>.
\<close>

theorem nearby_sorted_top15:
  "length (places (nearby env lat lng filter_arg)) \<le> 15 \<and>
   sorted (map distance_m (places (nearby env lat lng filter_arg)))"
  by (simp add: nearby_def try_block_def Let_def take_map [symmetric] sorted_wrt_take split: sum.split prod.split)

text \<open>
  The property at the response for the payload \<open>tie_elements\<close>.
\<close>

theorem nearby_sorted_top15_witness:
  "length (places (nearby (stub_env (JObj [(''elements'', JArr tie_elements)])) 12.971646 77.5946 None)) \<le> 15 \<and>
   sorted (map distance_m
     (places (nearby (stub_env (JObj [(''elements'', JArr tie_elements)])) 12.971646 77.5946 None)))"
  using nearby_sorted_top15 [of "stub_env (JObj [(''elements'', JArr tie_elements)])" "12.971646" "77.5946" None]
  by blast

subsection \<open>Deduplication\<close>

text \<open>
  Claim C3. Let the upstream deliver the elements \<open>els\<close> and the handler succeed. For
  every rounded coordinate pair \<open>k\<close> that some element has, exactly one Place Result with
  the pair \<open>k\<close> is built, and it is the Place Result of the first element of \<open>els\<close> with
  that pair, whatever the tags of the later ones. The response, being the first 15 of the
  sorted list, holds that Place Result or none with the pair \<open>k\<close>.
\<close>

theorem dedup_first_seen:
  assumes fetch: "fetch env lat lng (effective_filter filter_arg) = Inr (JArr els)"
      and ok: "error (nearby env lat lng filter_arg) = None"
      and el: "el \<in> set els" and key: "element_key lat lng el = Some k"
  shows "\<exists>e0 p ps seen.
           find (\<lambda>e. element_key lat lng e = Some k) els = Some e0 \<and>
           element_place lat lng e0 = Some p \<and>
           for_elements lat lng els ([], {}) = Inr (ps, seen) \<and>
           filter (\<lambda>q. place_key q = Some k) ps = [p] \<and>
           places (nearby env lat lng filter_arg) = take 15 (sort_key distance_m ps) \<and>
           (filter (\<lambda>q. place_key q = Some k) (places (nearby env lat lng filter_arg)) = [p] \<or>
            filter (\<lambda>q. place_key q = Some k) (places (nearby env lat lng filter_arg)) = [])"
proof -
  from nearby_success_loop [OF fetch ok] obtain ps seen where
    loop: "for_elements lat lng els ([], {}) = Inr (ps, seen)" and
    resp: "places (nearby env lat lng filter_arg) = take 15 (sort_key distance_m ps)"
    by blast
  from built_places_for_key [OF loop el key] obtain e0 p where
    e0: "find (\<lambda>e. element_key lat lng e = Some k) els = Some e0"
        "element_place lat lng e0 = Some p" and
    one: "filter (\<lambda>q. place_key q = Some k) ps = [p]"
    by blast
  from filter_take_single [OF filter_sort_key_single [OF one], of 15 distance_m]
  have "filter (\<lambda>q. place_key q = Some k) (places (nearby env lat lng filter_arg)) = [p] \<or>
        filter (\<lambda>q. place_key q = Some k) (places (nearby env lat lng filter_arg)) = []"
    by (simp add: resp)
  with e0 loop one resp show ?thesis by blast
qed

text \<open>
  The example of the specification: \<open>(12.97150, 77.59460)\<close> and
  \<open>(12.97151, 77.59462)\<close> both round to \<open>(12.9715, 77.5946)\<close>; the hospital, seen
  first, is kept and the pharmacy is dropped.
\<close>

theorem dedup_first_seen_witness:
  "fetch (stub_env (JObj [(''elements'', JArr twin_elements)])) 12.9716 77.5946 (effective_filter None)
     = Inr (JArr twin_elements) \<and>
   error (nearby (stub_env (JObj [(''elements'', JArr twin_elements)])) 12.9716 77.5946 None) = None \<and>
   twin_elements ! 1 \<in> set twin_elements \<and>
   element_key 12.9716 77.5946 (twin_elements ! 0) = Some (12.9715, 77.5946) \<and>
   element_key 12.9716 77.5946 (twin_elements ! 1) = Some (12.9715, 77.5946) \<and>
   map place_name (places (nearby (stub_env (JObj [(''elements'', JArr twin_elements)])) 12.9716 77.5946 None))
     = [''Hospital (Has Washrooms)''] \<and>
   (\<exists>p ps seen.
      find (\<lambda>e. element_key 12.9716 77.5946 e = Some (12.9715, 77.5946)) twin_elements
        = Some (twin_elements ! 0) \<and>
      element_place 12.9716 77.5946 (twin_elements ! 0) = Some p \<and>
      for_elements 12.9716 77.5946 twin_elements ([], {}) = Inr (ps, seen) \<and>
      filter (\<lambda>q. place_key q = Some (12.9715, 77.5946)) ps = [p])"
proof -
  let ?env = "stub_env (JObj [(''elements'', JArr twin_elements)])"
  obtain d where d: "haversine 12.9716 77.5946 (JFloat 12.97150) (JFloat 77.59460) = Inr d"
    using twin_distance by blast
  have h1: "fetch ?env 12.9716 77.5946 (effective_filter None) = Inr (JArr twin_elements)"
    by (rule twin_loc)
  have res: "nearby ?env 12.9716 77.5946 None =
      \<lparr> places = [\<lparr> place_name = ''Hospital (Has Washrooms)'', address = JStr [],
                      place_lat = JFloat 12.97150, place_lng = JFloat 77.59460, distance_m = d,
                      types = [JStr ''hospital''], wheelchair = JStr [] \<rparr>],
         error = None \<rparr>"
    by (simp add: eval_defs twin_elements_def d [simplified])
  have h2: "error (nearby ?env 12.9716 77.5946 None) = None" by (subst res) simp
  have h3: "twin_elements ! 1 \<in> set twin_elements" by (simp add: twin_elements_def)
  have k0: "element_key 12.9716 77.5946 (twin_elements ! 0) = Some (12.9715, 77.5946)"
    by (simp add: twin_elements_def key_defs)
  have h4: "element_key 12.9716 77.5946 (twin_elements ! 1) = Some (12.9715, 77.5946)"
    by (simp add: twin_elements_def key_defs)
  have f0: "find (\<lambda>e. element_key 12.9716 77.5946 e = Some (12.9715, 77.5946)) twin_elements
        = Some (twin_elements ! 0)"
    using k0 by (simp add: twin_elements_def)
  from dedup_first_seen [OF h1 h2 h3 h4] f0
  have c: "\<exists>p ps seen.
      find (\<lambda>e. element_key 12.9716 77.5946 e = Some (12.9715, 77.5946)) twin_elements
        = Some (twin_elements ! 0) \<and>
      element_place 12.9716 77.5946 (twin_elements ! 0) = Some p \<and>
      for_elements 12.9716 77.5946 twin_elements ([], {}) = Inr (ps, seen) \<and>
      filter (\<lambda>q. place_key q = Some (12.9715, 77.5946)) ps = [p]"
    by auto
  have names: "map place_name (places (nearby ?env 12.9716 77.5946 None)) = [''Hospital (Has Washrooms)'']"
    by (subst res) simp
  from h1 h2 h3 k0 h4 names c show ?thesis by blast
qed

subsection \<open>Display names\<close>



subsection \<open>The distance function\<close>



subsection \<open>The filter\<close>

text \<open>
  Claim C6. A filter that is none of \<^verbatim>\<open>elevator\<close>, \<^verbatim>\<open>rest\<close>, \<^verbatim>\<open>washroom\<close>,
  \<^verbatim>\<open>hospital\<close>, \<^verbatim>\<open>all\<close> yields the clauses, the query and the response of the filter
  \<^verbatim>\<open>all\<close>, and so does an absent filter; the clauses of \<^verbatim>\<open>all\<close> are the five of
  lines 210-214.
\<close>

theorem unknown_filter_uses_all:
  assumes "flt \<notin> {''elevator'', ''rest'', ''washroom'', ''hospital'', ''all''}"
  shows \<open>inner env lat lng flt = inner env lat lng ''all'' \<and>
         query env lat lng flt = query env lat lng ''all'' \<and>
         nearby env lat lng (Some flt) = nearby env lat lng (Some ''all'') \<and>
         nearby env lat lng None = nearby env lat lng (Some ''all'') \<and>
         inner env lat lng ''all'' =
           clauses env lat lng
             [''node["amenity"~"hospital|clinic|pharmacy|toilets|bench|shelter|cafe|restaurant|doctors"]'',
              ''way["amenity"~"hospital|clinic"]'',
              ''node["leisure"="park"]'',
              ''way["leisure"="park"]'',
              ''node["highway"="elevator"]'']\<close>
proof -
  have i: "inner env lat lng flt = inner env lat lng ''all''"
    using assms by (simp add: inner_def queries_map_def)
  then have q: "query env lat lng flt = query env lat lng ''all''"
    by (simp add: query_def)
  then have "try_block env lat lng flt = try_block env lat lng ''all''"
    by (simp add: try_block_def fetch_def)
  then have n: "nearby env lat lng (Some flt) = nearby env lat lng (Some ''all'')"
    by (simp add: nearby_def)
  have d: "nearby env lat lng None = nearby env lat lng (Some ''all'')"
    by (simp add: nearby_def)
  have a: \<open>inner env lat lng ''all'' =
           clauses env lat lng
             [''node["amenity"~"hospital|clinic|pharmacy|toilets|bench|shelter|cafe|restaurant|doctors"]'',
              ''way["amenity"~"hospital|clinic"]'',
              ''node["leisure"="park"]'',
              ''way["leisure"="park"]'',
              ''node["highway"="elevator"]'']\<close>
    by (simp add: inner_def queries_map_def)
  from i q n d a show ?thesis by blast
qed

text \<open>
  The filter \<^verbatim>\<open>"foo"\<close>.
\<close>

theorem unknown_filter_uses_all_witness:
  "''foo'' \<notin> {''elevator'', ''rest'', ''washroom'', ''hospital'', ''all''} \<and>
   query (stub_env (JObj [])) 12.9716 77.5946 ''foo'' = query (stub_env (JObj [])) 12.9716 77.5946 ''all'' \<and>
   nearby (stub_env (JObj [])) 12.9716 77.5946 (Some ''foo'')
     = nearby (stub_env (JObj [])) 12.9716 77.5946 (Some ''all'')"
proof -
  have h: "''foo'' \<notin> {''elevator'', ''rest'', ''washroom'', ''hospital'', ''all''}" by simp
  from unknown_filter_uses_all [OF h, of "stub_env (JObj [])" "12.9716" "77.5946"] h
  show ?thesis by blast
qed

subsection \<open>Areas without a center\<close>

text \<open>
  Claim C7. An element that is not a node and has no center (none, or an empty one) is
  skipped: the pass of the loop leaves the list of places and the set of seen coordinates
  as they are, the element has no Place Result and no coordinate key, and removing it
  from the payload changes neither the run of the loop nor the response.
\<close>

theorem area_without_center_skipped:
  assumes "area_without_center el"
  shows "loop_body lat lng el (ps, seen) = Inr (ps, seen) \<and>
         element_place lat lng el = None \<and>
         element_key lat lng el = None \<and>
         for_elements lat lng (xs @ el # ys) st = for_elements lat lng (xs @ ys) st \<and>
         (fetch env lat lng (effective_filter filter_arg) = Inr (JArr (xs @ el # ys)) \<longrightarrow>
          fetch env' lat lng (effective_filter filter_arg) = Inr (JArr (xs @ ys)) \<longrightarrow>
          nearby env lat lng filter_arg = nearby env' lat lng filter_arg)"
proof -
  have body: "loop_body lat lng el (ps, seen) = Inr (ps, seen)"
    by (rule area_without_center_body [OF assms])
  have none: "element_place lat lng el = None \<and> element_key lat lng el = None"
  proof (cases el)
    case (JObj kvs)
    with assms area_without_center_locate [of kvs lat lng] show ?thesis by simp
  qed simp_all
  have skip: "for_elements lat lng (xs @ el # ys) st' = for_elements lat lng (xs @ ys) st'" for st'
    by (rule for_elements_skip [OF assms])
  have "nearby env lat lng filter_arg = nearby env' lat lng filter_arg"
    if "fetch env lat lng (effective_filter filter_arg) = Inr (JArr (xs @ el # ys))"
       "fetch env' lat lng (effective_filter filter_arg) = Inr (JArr (xs @ ys))"
    using that by (simp add: nearby_eq try_block_def skip)
  with body none skip show ?thesis by blast
qed

text \<open>
  A way without a center between the two elements of the deduplication example.
\<close>

theorem area_without_center_skipped_witness:
  "area_without_center bare_way \<and>
   loop_body 12.9716 77.5946 bare_way ([], {(12.9715, 77.5946)}) = Inr ([], {(12.9715, 77.5946)}) \<and>
   nearby (stub_env (JObj [(''elements'', JArr ([twin_elements ! 0] @ bare_way # [twin_elements ! 1]))]))
       12.9716 77.5946 None
     = nearby (stub_env (JObj [(''elements'', JArr ([twin_elements ! 0] @ [twin_elements ! 1]))]))
       12.9716 77.5946 None"
proof -
  have h: "area_without_center bare_way"
    by (simp add: area_without_center_def bare_way_def)
  have f1: "fetch (stub_env (JObj [(''elements'', JArr ([twin_elements ! 0] @ bare_way # [twin_elements ! 1]))]))
              12.9716 77.5946 (effective_filter None)
            = Inr (JArr ([twin_elements ! 0] @ bare_way # [twin_elements ! 1]))"
    by (simp add: fetch_defs)
  have f2: "fetch (stub_env (JObj [(''elements'', JArr ([twin_elements ! 0] @ [twin_elements ! 1]))]))
              12.9716 77.5946 (effective_filter None)
            = Inr (JArr ([twin_elements ! 0] @ [twin_elements ! 1]))"
    by (simp add: fetch_defs)
  from area_without_center_skipped [OF h, of "12.9716" "77.5946" "[]" "{(12.9715, 77.5946)}"
      "[twin_elements ! 0]" "[twin_elements ! 1]" _
      "stub_env (JObj [(''elements'', JArr ([twin_elements ! 0] @ bare_way # [twin_elements ! 1]))])" None
      "stub_env (JObj [(''elements'', JArr ([twin_elements ! 0] @ [twin_elements ! 1]))])"] f1 f2 h
  show ?thesis by blast
qed

subsection \<open>Centers with missing coordinates\<close>

text \<open>
  Claim C8, as amended. For an element that is not a node and whose center is a
  non-empty object, a coordinate missing from the center is the query point's own. If
  both are missing and the element yields a Place Result, that result lies at the query
  point and has \<^verbatim>\<open>distance_m\<close> 0, the least possible value: in every response that lists
  it, only places of distance 0 stand before it.
\<close>

theorem center_defaults:
  assumes ty: "map_of el ''type'' = Some ty" "ty \<noteq> JStr ''node''"
      and c: "map_of el ''center'' = Some (JObj c)" "c \<noteq> []"
  shows "locate lat lng el =
           Inr (Some (dict_get c ''lat'' (JFloat lat), dict_get c ''lon'' (JFloat lng))) \<and>
         (map_of c ''lat'' = None \<and> map_of c ''lon'' = None \<longrightarrow>
            (\<forall>p. element_place lat lng (JObj el) = Some p \<longrightarrow>
               place_lat p = JFloat lat \<and> place_lng p = JFloat lng \<and> distance_m p = 0 \<and>
               (\<forall>env filter_arg pre post.
                  places (nearby env lat lng filter_arg) = pre @ p # post \<longrightarrow>
                  (\<forall>q\<in>set pre. distance_m q = 0))))"
proof -
  have loc: "locate lat lng el =
           Inr (Some (dict_get c ''lat'' (JFloat lat), dict_get c ''lon'' (JFloat lng)))"
    using ty c by (simp add: locate_def subscript_def dict_get_def Let_def)
  have "place_lat p = JFloat lat \<and> place_lng p = JFloat lng \<and> distance_m p = 0 \<and>
        (\<forall>env filter_arg pre post.
            places (nearby env lat lng filter_arg) = pre @ p # post \<longrightarrow>
            (\<forall>q\<in>set pre. distance_m q = 0))"
    if none: "map_of c ''lat'' = None" "map_of c ''lon'' = None"
      and p: "element_place lat lng (JObj el) = Some p" for p
  proof -
    from none have "dict_get c ''lat'' (JFloat lat) = JFloat lat"
      "dict_get c ''lon'' (JFloat lng) = JFloat lng" by (simp_all add: dict_get_def)
    with loc p have mk: "make_place lat lng (dict_get el ''tags'' (JObj [])) (JFloat lat) (JFloat lng) = Inr p"
      by (auto split: sum.splits)
    from make_place_coords [OF mk] have
      "place_lat p = JFloat lat" "place_lng p = JFloat lng" "distance_m p = 0"
      by (simp_all add: haversine_at_query_point)
    with zero_ranks_before_positive show ?thesis by blast
  qed
  with loc show ?thesis by blast
qed

text \<open>
  The way of \<open>tie_elements\<close>, whose center has the keys \<^verbatim>\<open>"latitude"\<close> and
  \<^verbatim>\<open>"longitude"\<close> only: its Place Result lies at the query point, with distance 0, behind
  a place of distance 0.
\<close>

theorem center_defaults_witness:
  "map_of tie_way ''type'' = Some (JStr ''way'') \<and>
   JStr ''way'' \<noteq> JStr ''node'' \<and>
   map_of tie_way ''center'' = Some (JObj tie_center) \<and>
   tie_center \<noteq> [] \<and>
   map_of tie_center ''lat'' = None \<and>
   map_of tie_center ''lon'' = None \<and>
   locate 12.971646 77.5946 tie_way = Inr (Some (JFloat 12.971646, JFloat 77.5946)) \<and>
   (\<exists>p pre.
      element_place 12.971646 77.5946 (JObj tie_way) = Some p \<and>
      place_lat p = JFloat 12.971646 \<and> place_lng p = JFloat 77.5946 \<and> distance_m p = 0 \<and>
      places (nearby (stub_env (JObj [(''elements'', JArr tie_elements)])) 12.971646 77.5946 None)
        = pre @ [p] \<and>
      map distance_m pre = [0])"
proof -
  let ?env = "stub_env (JObj [(''elements'', JArr tie_elements)])"
  let ?a = "\<lparr> place_name = ''Pharmacy'', address = JStr [], place_lat = JFloat 12.971652,
              place_lng = JFloat 77.5946, distance_m = 0, types = [JStr ''pharmacy''],
              wheelchair = JStr [] \<rparr>"
  let ?b = "\<lparr> place_name = ''Hospital (Has Washrooms)'', address = JStr [],
              place_lat = JFloat 12.971646, place_lng = JFloat 77.5946, distance_m = 0,
              types = [JStr ''hospital''], wheelchair = JStr [] \<rparr>"
  have t1: "map_of tie_way ''type'' = Some (JStr ''way'')" by (simp add: tie_way_def)
  have t2: "JStr ''way'' \<noteq> JStr ''node''" by simp
  have c1: "map_of tie_way ''center'' = Some (JObj tie_center)" by (simp add: tie_way_def)
  have c2: "tie_center \<noteq> []" by (simp add: tie_center_def)
  have n: "map_of tie_center ''lat'' = None \<and> map_of tie_center ''lon'' = None"
    by (simp add: tie_center_def)
  note inst = center_defaults [OF t1 t2 c1 c2, of "12.971646" "77.5946"]
  from inst n have loc: "locate 12.971646 77.5946 tie_way = Inr (Some (JFloat 12.971646, JFloat 77.5946))"
    by (simp add: dict_get_def)
  have b: "element_place 12.971646 77.5946 (JObj tie_way) = Some ?b"
    by (simp add: tie_way_def tie_center_def key_defs make_place_def haversine_at_query_point
          category_tags_def label_map_def py_or_def)
  have res: "nearby ?env 12.971646 77.5946 None = \<lparr> places = [?a] @ [?b], error = None \<rparr>"
    by (simp add: eval_defs tie_elements_def tie_way_def tie_center_def
          haversine_below_one_metre [simplified] haversine_at_query_point)
  then have split: "places (nearby ?env 12.971646 77.5946 None) = [?a] @ ?b # []" by simp
  from inst n b have "\<forall>env filter_arg pre post.
      places (nearby env 12.971646 77.5946 filter_arg) = pre @ ?b # post \<longrightarrow>
      (\<forall>q\<in>set pre. distance_m q = 0)"
    by blast
  with split have "\<forall>q\<in>set [?a]. distance_m q = 0" by blast
  then have zero: "map distance_m [?a] = [0]" by simp
  from inst n b have coords: "place_lat ?b = JFloat 12.971646 \<and> place_lng ?b = JFloat 77.5946 \<and>
    distance_m ?b = 0" by blast
  from res have resp: "places (nearby ?env 12.971646 77.5946 None) = [?a] @ [?b]" by simp
  have "\<exists>p pre.
      element_place 12.971646 77.5946 (JObj tie_way) = Some p \<and>
      place_lat p = JFloat 12.971646 \<and> place_lng p = JFloat 77.5946 \<and> distance_m p = 0 \<and>
      places (nearby ?env 12.971646 77.5946 None) = pre @ [p] \<and>
      map distance_m pre = [0]"
  proof (intro exI conjI)
    show "element_place 12.971646 77.5946 (JObj tie_way) = Some ?b" by (rule b)
    show "place_lat ?b = JFloat 12.971646" using coords by blast
    show "place_lng ?b = JFloat 77.5946" using coords by blast
    show "distance_m ?b = 0" using coords by blast
    show "places (nearby ?env 12.971646 77.5946 None) = [?a] @ [?b]" by (rule resp)
    show "map distance_m [?a] = [0]" by (rule zero)
  qed
  with t1 t2 c1 c2 n loc show ?thesis by blast
qed

text \<open>
  Such an element need not rank first. The sort is stable, and an earlier element in
  another cell of the rounding grid can be less than a metre away: the node of
  \<open>tie_elements\<close> is 0.67 m north of the query point, so both places have distance 0 and
  the node stays in front of the way.
\<close>

theorem center_default_ranks_second:
  "map place_name
     (places (nearby (stub_env (JObj [(''elements'', JArr tie_elements)])) 12.971646 77.5946 None))
     = [''Pharmacy'', ''Hospital (Has Washrooms)''] \<and>
   map place_lat
     (places (nearby (stub_env (JObj [(''elements'', JArr tie_elements)])) 12.971646 77.5946 None))
     = [JFloat 12.971652, JFloat 12.971646] \<and>
   map distance_m
     (places (nearby (stub_env (JObj [(''elements'', JArr tie_elements)])) 12.971646 77.5946 None))
     = [0, 0]"
  by (simp add: eval_defs tie_elements_def tie_way_def tie_center_def haversine_below_one_metre [simplified] haversine_at_query_point)

subsection \<open>Malformed elements\<close>

text \<open>
  Claim C9. If the upstream delivers a list of elements one of which lacks
  \<^verbatim>\<open>"type"\<close>, or is a node that lacks \<^verbatim>\<open>"lat"\<close> or \<^verbatim>\<open>"lon"\<close>, then the loop raises and
  the response is \<^verbatim>\<open>{"places": [], "error": ...}\<close> with a non-empty text: the places
  built from earlier elements are lost.
\<close>

theorem malformed_element_degrades:
  assumes fetch: "fetch env lat lng (effective_filter filter_arg) = Inr (JArr els)"
      and el: "el \<in> set els" and bad: "malformed el"
  shows "\<exists>e. for_elements lat lng els ([], {}) = Inl e \<and> str_exc e \<noteq> [] \<and>
             nearby env lat lng filter_arg = \<lparr> places = [], error = Some (str_exc e) \<rparr>"
proof -
  from for_elements_malformed [OF el bad] obtain e where
    e: "for_elements lat lng els ([], {}) = Inl e" by blast
  from nearby_loop_failure [OF fetch e] for_elements_message [OF e] e show ?thesis by blast
qed

text \<open>
  A good node followed by a node without \<^verbatim>\<open>"lat"\<close>: the first pass of the loop does
  not raise, the response is empty and carries the text of \<^verbatim>\<open>KeyError('lat')\<close>.
\<close>

theorem malformed_element_degrades_witness:
  "fetch (stub_env (JObj [(''elements'', JArr broken_elements)])) 12.9716 77.5946 (effective_filter None)
     = Inr (JArr broken_elements) \<and>
   broken_elements ! 1 \<in> set broken_elements \<and>
   malformed (broken_elements ! 1) \<and>
   for_elements 12.9716 77.5946 [broken_elements ! 0] ([], {}) \<noteq> Inl (KeyError ''lat'') \<and>
   nearby (stub_env (JObj [(''elements'', JArr broken_elements)])) 12.9716 77.5946 None
     = \<lparr> places = [], error = Some [CHR 0x27, CHR ''l'', CHR ''a'', CHR ''t'', CHR 0x27] \<rparr>"
proof -
  let ?env = "stub_env (JObj [(''elements'', JArr broken_elements)])"
  have h1: "fetch ?env 12.9716 77.5946 (effective_filter None) = Inr (JArr broken_elements)"
    by (simp add: fetch_defs)
  have h2: "broken_elements ! 1 \<in> set broken_elements" by (simp add: broken_elements_def)
  have h3: "malformed (broken_elements ! 1)" by (simp add: broken_elements_def malformed_def)
  have loop: "for_elements 12.9716 77.5946 broken_elements ([], {}) = Inl (KeyError ''lat'')"
    by (simp add: broken_elements_def key_defs make_place_def haversine_at_query_point
          category_tags_def label_map_def py_or_def)
  have first: "for_elements 12.9716 77.5946 [broken_elements ! 0] ([], {}) \<noteq> Inl (KeyError ''lat'')"
    by (simp add: broken_elements_def key_defs make_place_def haversine_at_query_point
          category_tags_def label_map_def py_or_def)
  from malformed_element_degrades [OF h1 h2 h3] loop
  have "nearby ?env 12.9716 77.5946 None
     = \<lparr> places = [], error = Some [CHR 0x27, CHR ''l'', CHR ''a'', CHR ''t'', CHR 0x27] \<rparr>"
    by auto
  with h1 h2 h3 first show ?thesis by blast
qed

subsection \<open>No distance filter\<close>

text \<open>
  Claim C10. When the handler succeeds on the elements \<open>els\<close>, the Place Results it
  builds are those of the first-seen elements, one for each and in their order, with no
  condition on the distance. The response is the first 15 of them by distance: all of
  them when there are at most 15, and a Place Result is left out only when the response
  is full of places that are at most as far. The radius of 2000 metres occurs in the text
  of the query only.
\<close>

theorem no_local_distance_filter:
  assumes fetch: "fetch env lat lng (effective_filter filter_arg) = Inr (JArr els)"
      and ok: "error (nearby env lat lng filter_arg) = None"
  shows "\<exists>ps seen.
           for_elements lat lng els ([], {}) = Inr (ps, seen) \<and>
           list_all2 (\<lambda>e p. element_place lat lng e = Some p) (first_seen lat lng els {}) ps \<and>
           places (nearby env lat lng filter_arg) = take 15 (sort_key distance_m ps) \<and>
           (length ps \<le> 15 \<longrightarrow> mset (places (nearby env lat lng filter_arg)) = mset ps) \<and>
           (\<forall>p\<in>set ps. p \<notin> set (places (nearby env lat lng filter_arg)) \<longrightarrow>
              length (places (nearby env lat lng filter_arg)) = 15 \<and>
              (\<forall>q\<in>set (places (nearby env lat lng filter_arg)). distance_m q \<le> distance_m p)) \<and>
           around env lat lng =
             ''(around:2000,'' @ float_str env lat @ '','' @ float_str env lng @ '');''"
proof -
  from nearby_success_loop [OF fetch ok] obtain ps seen where
    loop: "for_elements lat lng els ([], {}) = Inr (ps, seen)" and
    resp: "places (nearby env lat lng filter_arg) = take 15 (sort_key distance_m ps)"
    by blast
  from for_elements_char [OF loop]
  have built: "list_all2 (\<lambda>e p. element_place lat lng e = Some p) (first_seen lat lng els {}) ps"
    by simp
  have few: "mset (places (nearby env lat lng filter_arg)) = mset ps" if "length ps \<le> 15"
    using that by (simp add: resp)
  have cap: "length (places (nearby env lat lng filter_arg)) = 15 \<and>
             (\<forall>q\<in>set (places (nearby env lat lng filter_arg)). distance_m q \<le> distance_m p)"
    if "p \<in> set ps" "p \<notin> set (places (nearby env lat lng filter_arg))" for p
    unfolding resp by (rule dropped_by_the_cap [OF that(1) that(2) [unfolded resp]])
  have radius: "around env lat lng =
             ''(around:2000,'' @ float_str env lat @ '','' @ float_str env lng @ '');''"
    by (simp add: around_def str_nat_r)
  from loop built resp few cap radius show ?thesis by blast
qed

text \<open>
  A hospital 0.05 degrees (more than 5 km) north of the query point is returned. Of
  sixteen nodes up to 17 km away the fifteen nearest are returned, and the farthest is
  left out by the cap.
\<close>

theorem no_local_distance_filter_witness:
  "fetch (stub_env (JObj [(''elements'', JArr far_elements)])) 12.9716 77.5946 (effective_filter None)
     = Inr (JArr far_elements) \<and>
   error (nearby (stub_env (JObj [(''elements'', JArr far_elements)])) 12.9716 77.5946 None) = None \<and>
   map place_name (places (nearby (stub_env (JObj [(''elements'', JArr far_elements)])) 12.9716 77.5946 None))
     = [''Hospital (Has Washrooms)''] \<and>
   filter (\<lambda>p. distance_m p \<le> 2000)
     (places (nearby (stub_env (JObj [(''elements'', JArr far_elements)])) 12.9716 77.5946 None)) = [] \<and>
   (\<exists>ps seen.
      for_elements 12.9716 77.5946 far_elements ([], {}) = Inr (ps, seen) \<and>
      places (nearby (stub_env (JObj [(''elements'', JArr far_elements)])) 12.9716 77.5946 None)
        = take 15 (sort_key distance_m ps)) \<and>
   fetch (stub_env (JObj [(''elements'', JArr ladder_elements)])) 12.9716 77.5946 (effective_filter None)
     = Inr (JArr ladder_elements) \<and>
   error (nearby (stub_env (JObj [(''elements'', JArr ladder_elements)])) 12.9716 77.5946 None) = None \<and>
   length (first_seen 12.9716 77.5946 ladder_elements {}) = 16 \<and>
   length (places (nearby (stub_env (JObj [(''elements'', JArr ladder_elements)])) 12.9716 77.5946 None)) = 15 \<and>
   JFloat 13.1316 \<notin> set (map place_lat
     (places (nearby (stub_env (JObj [(''elements'', JArr ladder_elements)])) 12.9716 77.5946 None)))"
proof -
  let ?env = "stub_env (JObj [(''elements'', JArr far_elements)])"
  obtain d where d: "haversine 12.9716 77.5946 (JFloat 13.0216) (JFloat 77.5946) = Inr d" "2000 < d"
    using far_distance by blast
  have h1: "fetch ?env 12.9716 77.5946 (effective_filter None) = Inr (JArr far_elements)"
    by (simp add: fetch_defs)
  have res: "nearby ?env 12.9716 77.5946 None =
      \<lparr> places = [\<lparr> place_name = ''Hospital (Has Washrooms)'', address = JStr [],
                      place_lat = JFloat 13.0216, place_lng = JFloat 77.5946, distance_m = d,
                      types = [JStr ''hospital''], wheelchair = JStr [] \<rparr>],
         error = None \<rparr>"
    by (simp add: eval_defs far_elements_def d(1) [simplified])
  have h2: "error (nearby ?env 12.9716 77.5946 None) = None" by (subst res) simp
  have names: "map place_name (places (nearby ?env 12.9716 77.5946 None)) = [''Hospital (Has Washrooms)'']"
    by (subst res) simp
  have far: "filter (\<lambda>p. distance_m p \<le> 2000) (places (nearby ?env 12.9716 77.5946 None)) = []"
    using d(2) by (subst res) simp
  from no_local_distance_filter [OF h1 h2]
  have built: "\<exists>ps seen.
      for_elements 12.9716 77.5946 far_elements ([], {}) = Inr (ps, seen) \<and>
      places (nearby ?env 12.9716 77.5946 None) = take 15 (sort_key distance_m ps)"
    by blast
  let ?lenv = "stub_env (JObj [(''elements'', JArr ladder_elements)])"
  let ?res = "nearby ?lenv 12.9716 77.5946 None"
  obtain ps seen where
    loop: "for_elements 12.9716 77.5946 ladder_elements ([], {}) = Inr (ps, seen)" and
    all: "map place_lat ps =
        [JFloat 12.9816, JFloat 12.9916, JFloat 13.0016, JFloat 13.0116, JFloat 13.0216,
         JFloat 13.0316, JFloat 13.0416, JFloat 13.0516, JFloat 13.0616, JFloat 13.0716,
         JFloat 13.0816, JFloat 13.0916, JFloat 13.1016, JFloat 13.1116, JFloat 13.1216,
         JFloat 13.1316]" and
    top: "map place_lat (take 15 (sort_key distance_m ps)) =
        [JFloat 12.9816, JFloat 12.9916, JFloat 13.0016, JFloat 13.0116, JFloat 13.0216,
         JFloat 13.0316, JFloat 13.0416, JFloat 13.0516, JFloat 13.0616, JFloat 13.0716,
         JFloat 13.0816, JFloat 13.0916, JFloat 13.1016, JFloat 13.1116, JFloat 13.1216]"
    using ladder_places by (elim exE conjE) (rule that)
  have l1: "fetch ?lenv 12.9716 77.5946 (effective_filter None) = Inr (JArr ladder_elements)"
    by (simp add: fetch_defs)
  have lres: "?res = \<lparr> places = take 15 (sort_key distance_m ps), error = None \<rparr>"
    by (rule nearby_loop_success [OF l1 loop])
  have l2: "error ?res = None" by (subst lres) simp
  have out: "JFloat 13.1316 \<notin> set (map place_lat (places ?res))"
    by (subst lres) (simp add: top)
  from all have "JFloat 13.1316 \<in> set (map place_lat ps)" by simp
  then obtain p where p: "p \<in> set ps" "place_lat p = JFloat 13.1316" by auto
  with out have gone: "p \<notin> set (places ?res)" by force
  from no_local_distance_filter [OF l1 l2] loop p(1) gone
  have "length (places ?res) = 15" by auto
  with h1 h2 names far built l1 l2 ladder_first_seen out show ?thesis by blast
qed

end
